theory Spec2Isabelle
  imports Complex_Main
begin

section \<open>FleetLink: route estimation, overlap query, bookings and vehicles\<close>

text \<open>
  A shallow embedding of the FleetLink backend's services
  (\<^verbatim>\<open>rideCalculationService.js\<close>, \<^verbatim>\<open>vehicleService.js\<close>, \<^verbatim>\<open>bookingService.js\<close>) and of
  the two Mongoose models they use (\<^verbatim>\<open>Vehicle\<close>, \<^verbatim>\<open>Booking\<close>).

  Conventions of the embedding:
  \<^item> a JavaScript \<^verbatim>\<open>Date\<close> is its time value, an \<open>int\<close> of milliseconds since the epoch; an
    Invalid Date is \<open>None\<close>. The bound of 8.64e15 ms on time values is not modelled.
  \<^item> a JavaScript number that the services compute with (hours, kilometres, kilograms) is a
    \<open>rat\<close>, the exact value of the double. The durations the estimator produces are 0.5 or an
    integer below 24, and the products with 3600000 and 50 are integers, so double arithmetic
    on them is exact. The cost of a route is not: there every operation is followed by the
    rounding to the nearest double, \<open>toDouble\<close>.
  \<^item> a thrown \<^verbatim>\<open>Error\<close> is a value of type \<open>error\<close>; every service wraps the message of what it
    catches in a prefix of its own (\<^verbatim>\<open>Error creating booking: ...\<close>), which keeps the kind.
  \<^item> the collections of the store are lists in insertion order; \<^verbatim>\<open>find\<close> is \<open>filter\<close>.
  \<^item> the clock (\<^verbatim>\<open>new Date()\<close>) and the fresh \<^verbatim>\<open>ObjectId\<close> of a new document are parameters.
\<close>

subsection \<open>JavaScript values that reach the pincode functions\<close>

text \<open>
  \<open>JNum\<close> stands for the numbers with an integral value (below 1e21 in size), whose string
  form is their decimal numeral. Fractional numbers, \<^verbatim>\<open>NaN\<close>, objects and arrays are left out.
\<close>

datatype jsval = JUndefined | JNull | JBool bool | JNum int | JStr string

function showNat :: "nat \<Rightarrow> string" where
  "showNat n =
     (if n < 10 then [char_of (48 + n)]
      else showNat (n div 10) @ [char_of (48 + n mod 10)])"
  by pat_completeness auto
termination
  by (relation "measure id") auto

declare showNat.simps [simp del]

text \<open>The abstract operation \<^verbatim>\<open>ToString\<close>, which \<^verbatim>\<open>RegExp.prototype.test\<close> and \<^verbatim>\<open>parseInt\<close> apply to
  their argument.\<close>

fun ToString :: "jsval \<Rightarrow> string" where
  "ToString JUndefined = ''undefined''"
| "ToString JNull = ''null''"
| "ToString (JBool b) = (if b then ''true'' else ''false'')"
| "ToString (JNum n) = (if n < 0 then CHR ''-'' # showNat (nat (- n)) else showNat (nat n))"
| "ToString (JStr s) = s"

text \<open>The operand of \<^verbatim>\<open>!\<close> and of \<^verbatim>\<open>if\<close>: \<^verbatim>\<open>undefined\<close>, \<^verbatim>\<open>null\<close>, \<^verbatim>\<open>false\<close>, \<^verbatim>\<open>0\<close> and the empty
  string are falsy.\<close>

fun truthy :: "jsval \<Rightarrow> bool" where
  "truthy JUndefined = False"
| "truthy JNull = False"
| "truthy (JBool b) = b"
| "truthy (JNum n) = (n \<noteq> 0)"
| "truthy (JStr s) = (s \<noteq> [])"

text \<open>The character class \<^verbatim>\<open>\d\<close> of a JavaScript regular expression: the ten ASCII digits,
  the characters 48 to 57.\<close>

definition isDigit :: "char \<Rightarrow> bool" where
  "isDigit c = (48 \<le> (of_char c :: nat) \<and> (of_char c :: nat) \<le> 57)"

definition digitVal :: "char \<Rightarrow> int" where
  "digitVal c = int (of_char c) - 48"

definition decimal :: "string \<Rightarrow> int" where
  "decimal ds = foldl (\<lambda>a c. 10 * a + digitVal c) 0 ds"

text \<open>
  \<^verbatim>\<open>parseInt(v)\<close> on the arguments that reach it: the value of the leading run of decimal
  digits of \<^verbatim>\<open>ToString(v)\<close>. The estimator calls it behind the \<^verbatim>\<open>isValidPincode\<close> guard only,
  where the string is six digits; signs, blanks, a \<^verbatim>\<open>0x\<close> prefix and \<^verbatim>\<open>NaN\<close> do not occur there.
\<close>

definition parseInt :: "jsval \<Rightarrow> int" where
  "parseInt v = decimal (takeWhile isDigit (ToString v))"

subsection \<open>Errors\<close>

datatype error =
    MissingFields          \<comment> \<open>\<^verbatim>\<open>All booking fields are required\<close>\<close>
  | MissingCriteria        \<comment> \<open>\<^verbatim>\<open>All search criteria are required\<close>\<close>
  | VehicleNotFound        \<comment> \<open>\<^verbatim>\<open>Vehicle not found\<close>\<close>
  | VehicleNotActive       \<comment> \<open>\<^verbatim>\<open>Vehicle is not available for booking\<close>\<close>
  | InvalidPincode         \<comment> \<open>\<^verbatim>\<open>Invalid pincode format. Pincodes must be 6 digits.\<close>\<close>
  | InvalidTimeFormat      \<comment> \<open>\<^verbatim>\<open>Invalid start time format\<close>\<close>
  | PastStartTime          \<comment> \<open>\<^verbatim>\<open>Start time must be in the future\<close>\<close>
  | InvalidDuration        \<comment> \<open>\<^verbatim>\<open>Duration must be a positive number\<close>\<close>
  | SlotUnavailable        \<comment> \<open>\<^verbatim>\<open>Vehicle is no longer available for the requested time slot\<close>\<close>
  | ValidationError        \<comment> \<open>a schema validator or the \<^verbatim>\<open>pre('save')\<close> hook rejected the document\<close>
  | BookingNotFound        \<comment> \<open>\<^verbatim>\<open>Booking not found\<close>\<close>
  | AlreadyCompleted       \<comment> \<open>\<^verbatim>\<open>Cannot cancel completed booking\<close>\<close>
  | AlreadyCancelled       \<comment> \<open>\<^verbatim>\<open>Booking is already cancelled\<close>\<close>
  | TooCloseToStart        \<comment> \<open>\<^verbatim>\<open>Cannot cancel booking less than 2 hours before start time\<close>\<close>
  | NotCancelled           \<comment> \<open>\<^verbatim>\<open>Only cancelled bookings can be deleted\<close>\<close>
  | HasActiveBookings      \<comment> \<open>\<^verbatim>\<open>Cannot delete vehicle with active bookings\<close>\<close>

subsection \<open>RideCalculationService\<close>

type_synonym time = int

text \<open>\<^verbatim>\<open>/^\d{6}$/.test(pincode)\<close>: \<^verbatim>\<open>test\<close> converts its argument to a string and, the pattern having
  no flags, matches when the whole string is six digits.\<close>

definition isValidPincode :: "jsval \<Rightarrow> bool" where
  "isValidPincode pincode =
     (let s = ToString pincode in length s = 6 \<and> list_all isDigit s)"

definition calculateEstimatedDuration :: "jsval \<Rightarrow> jsval \<Rightarrow> error + rat" where
  "calculateEstimatedDuration fromPincode toPincode =
     (if \<not> isValidPincode fromPincode \<or> \<not> isValidPincode toPincode then Inl InvalidPincode
      else
        let fromPin = parseInt fromPincode;
            toPin = parseInt toPincode;
            duration = \<bar>toPin - fromPin\<bar> mod 24
        in Inr (max (of_int duration) (1 / 2)))"

text \<open>\<^verbatim>\<open>new Date(x)\<close> keeps the integral part of a time value (towards zero).\<close>

definition timeClip :: "rat \<Rightarrow> time" where
  "timeClip x = (if 0 \<le> x then \<lfloor>x\<rfloor> else \<lceil>x\<rceil>)"

definition calculateEndTime :: "time option \<Rightarrow> rat \<Rightarrow> error + time" where
  "calculateEndTime startTime durationHours =
     (case startTime of
        None \<Rightarrow> Inl InvalidTimeFormat
      | Some start \<Rightarrow>
          if durationHours = 0 \<or> durationHours \<le> 0 then Inl InvalidDuration
          else Inr (timeClip (of_int start + durationHours * 60 * 60 * 1000)))"

text \<open>
  The arithmetic of doubles: the result of an operation is the double nearest to the exact
  result, a tie going to the even significand of 53 bits. \<open>binaryExponent x\<close> is the \<open>e\<close> with
  \<open>2 ^ e \<le> x < 2 ^ (e + 1)\<close> for a positive \<open>x\<close>, and \<open>ulp x\<close> the spacing \<open>2 ^ (e - 52)\<close> of the
  doubles there. Overflow and subnormal numbers are not modelled; the costs stay far from
  both.
\<close>

function bitLength :: "nat \<Rightarrow> nat" where
  "bitLength n = (if n = 0 then 0 else Suc (bitLength (n div 2)))"
  by pat_completeness auto
termination
  by (relation "measure id") auto

declare bitLength.simps [simp del]

definition binaryExponent :: "rat \<Rightarrow> int" where
  "binaryExponent x =
     (if 1 \<le> x then int (bitLength (nat \<lfloor>x\<rfloor>)) - 1
      else - int (bitLength (nat (\<lceil>1 / x\<rceil> - 1))))"

definition ulp :: "rat \<Rightarrow> rat" where
  "ulp x =
     (let e = binaryExponent x
      in if 52 \<le> e then 2 ^ nat (e - 52) else 1 / 2 ^ nat (52 - e))"

definition roundHalfEven :: "rat \<Rightarrow> int" where
  "roundHalfEven x =
     (let f = \<lfloor>x\<rfloor>; r = x - of_int f
      in if r < 1 / 2 then f
         else if 1 / 2 < r then f + 1
         else if even f then f else f + 1)"

definition toDouble :: "rat \<Rightarrow> rat" where
  "toDouble x =
     (if x = 0 then 0
      else sgn x * of_int (roundHalfEven (\<bar>x\<bar> / ulp \<bar>x\<bar>)) * ulp \<bar>x\<bar>)"

text \<open>\<^verbatim>\<open>Math.round\<close>: the nearest integer, a half rounding up.\<close>

definition Math_round :: "rat \<Rightarrow> int" where
  "Math_round x = \<lfloor>x + 1 / 2\<rfloor>"

definition calculateEstimatedDistance :: "jsval \<Rightarrow> jsval \<Rightarrow> error + int" where
  "calculateEstimatedDistance fromPincode toPincode =
     (case calculateEstimatedDuration fromPincode toPincode of
        Inl e \<Rightarrow> Inl e
      | Inr duration \<Rightarrow> Inr (Math_round (duration * 50)))"

record routeInfo =
  ri_fromPincode :: jsval
  ri_toPincode :: jsval
  estimatedDurationHours :: rat
  estimatedDistanceKm :: int
  estimatedCost :: int
  route :: string

text \<open>
  \<^verbatim>\<open>getRouteInfo(fromPincode, toPincode, capacityKg)\<close>. The cost is
  \<^verbatim>\<open>Math.round(baseRate + (distance * perKmRate * capacityMultiplier))\<close> with
  \<^verbatim>\<open>capacityMultiplier = Math.max(1, capacityKg / 1000)\<close>: a division, two products from left to
  right and a sum, each rounded to a double. The arrow of the route label is U+2192, here in
  UTF-8.
\<close>

definition getRouteInfo :: "jsval \<Rightarrow> jsval \<Rightarrow> rat \<Rightarrow> error + routeInfo" where
  "getRouteInfo fromPincode toPincode capacityKg =
     (case calculateEstimatedDuration fromPincode toPincode of
        Inl e \<Rightarrow> Inl e
      | Inr duration \<Rightarrow>
          (case calculateEstimatedDistance fromPincode toPincode of
             Inl e \<Rightarrow> Inl e
           | Inr distance \<Rightarrow>
               let baseRate = 500;
                   perKmRate = 10;
                   capacityMultiplier = max 1 (toDouble (capacityKg / 1000));
                   cost = Math_round
                            (toDouble (baseRate
                               + toDouble (toDouble (of_int distance * perKmRate)
                                             * capacityMultiplier)))
               in Inr \<lparr> ri_fromPincode = fromPincode, ri_toPincode = toPincode,
                        estimatedDurationHours = duration, estimatedDistanceKm = distance,
                        estimatedCost = cost,
                        route = ToString fromPincode @ [CHR '' '', CHR 0xE2, CHR 0x86, CHR 0x92, CHR '' '']
                                  @ ToString toPincode \<rparr>))"

subsection \<open>The store: Vehicle and Booking documents\<close>

type_synonym oid = nat

datatype vehicleStatus = Active | Maintenance | Retired

datatype bookingStatus = Confirmed | InProgress | Completed | Cancelled

record vehicle =
  v_id :: oid
  name :: string
  capacityKg :: rat
  tyres :: rat
  v_status :: vehicleStatus
  registrationNumber :: string
  v_createdAt :: time
  v_updatedAt :: time

record booking =
  b_id :: oid
  vehicleId :: oid
  customerId :: string
  fromPincode :: string
  toPincode :: string
  startTime :: time
  endTime :: time
  estimatedRideDurationHours :: rat
  status :: bookingStatus
  actualStartTime :: "time option"
  actualEndTime :: "time option"
  b_notes :: "string option"
  createdAt :: time
  updatedAt :: time

record store =
  vehicles :: "vehicle list"
  bookings :: "booking list"

text \<open>\<^verbatim>\<open>Model.findById\<close>: the first document with the id, or \<^verbatim>\<open>null\<close>.\<close>

definition Vehicle_findById :: "store \<Rightarrow> oid \<Rightarrow> vehicle option" where
  "Vehicle_findById st i = find (\<lambda>v. v_id v = i) (vehicles st)"

definition Booking_findById :: "store \<Rightarrow> oid \<Rightarrow> booking option" where
  "Booking_findById st i = find (\<lambda>b. b_id b = i) (bookings st)"

text \<open>\<^verbatim>\<open>findByIdAndUpdate\<close> and \<^verbatim>\<open>findByIdAndDelete\<close> touch the first matching document only.\<close>

fun updateFirst :: "('a \<Rightarrow> bool) \<Rightarrow> ('a \<Rightarrow> 'a) \<Rightarrow> 'a list \<Rightarrow> 'a list" where
  "updateFirst p f [] = []"
| "updateFirst p f (x # xs) = (if p x then f x # xs else x # updateFirst p f xs)"

fun removeFirst :: "('a \<Rightarrow> bool) \<Rightarrow> 'a list \<Rightarrow> 'a list" where
  "removeFirst p [] = []"
| "removeFirst p (x # xs) = (if p x then xs else x # removeFirst p xs)"

text \<open>The derived \<^verbatim>\<open>type\<close> of a vehicle (a virtual of the schema, not stored).\<close>

definition vehicleType :: "vehicle \<Rightarrow> string" where
  "vehicleType v =
     (if capacityKg v \<le> 1000 then ''Light Vehicle''
      else if capacityKg v \<le> 5000 then ''Medium Vehicle''
      else ''Heavy Vehicle'')"

subsection \<open>Booking model: the overlap query and the checks of \<^verbatim>\<open>save\<close>\<close>

definition isActiveStatus :: "bookingStatus \<Rightarrow> bool" where
  "isActiveStatus s = (s = Confirmed \<or> s = InProgress)"

text \<open>
  \<^verbatim>\<open>Booking.findOverlappingBookings(vehicleId, startTime, endTime, excludeBookingId = null)\<close>: the
  query has the vehicle, a status among the two active ones, the single alternative of its
  \<^verbatim>\<open>$or\<close>, and, when an id to exclude is given, \<^verbatim>\<open>_id: { $ne: excludeBookingId }\<close>.
\<close>

definition findOverlappingBookings ::
    "store \<Rightarrow> oid \<Rightarrow> time \<Rightarrow> time \<Rightarrow> oid option \<Rightarrow> booking list" where
  "findOverlappingBookings st vid startT endT excludeBookingId =
     filter (\<lambda>b. vehicleId b = vid
                \<and> isActiveStatus (status b)
                \<and> (startTime b < endT \<and> endTime b > startT)
                \<and> (case excludeBookingId of None \<Rightarrow> True | Some x \<Rightarrow> b_id b \<noteq> x))
            (bookings st)"

text \<open>\<^verbatim>\<open>String.prototype.trim\<close> on the ASCII white space (the schema's \<^verbatim>\<open>trim: true\<close>).\<close>

definition isSpace :: "char \<Rightarrow> bool" where
  "isSpace c = ((of_char c :: nat) \<in> {9, 10, 11, 12, 13, 32})"

definition trim :: "string \<Rightarrow> string" where
  "trim s = rev (dropWhile isSpace (rev (dropWhile isSpace s)))"

definition matchesPincode :: "string \<Rightarrow> bool" where
  "matchesPincode s = (length s = 6 \<and> list_all isDigit s)"

text \<open>
  The validators of the Booking schema that can fail on a document whose fields are all
  present: the required trimmed \<^verbatim>\<open>customerId\<close> is not empty, both pincodes match
  \<^verbatim>\<open>/^\d{6}$/\<close>, \<^verbatim>\<open>startTime\<close> is after the clock, the duration is at least 0.1 and the notes
  have at most 500 characters.
\<close>

definition Booking_validate :: "time \<Rightarrow> booking \<Rightarrow> bool" where
  "Booking_validate now b =
     (customerId b \<noteq> []
      \<and> matchesPincode (fromPincode b)
      \<and> matchesPincode (toPincode b)
      \<and> startTime b > now
      \<and> estimatedRideDurationHours b \<ge> 1 / 10
      \<and> (case b_notes b of None \<Rightarrow> True | Some n \<Rightarrow> length n \<le> 500))"

text \<open>\<^verbatim>\<open>document.save()\<close>: validation, then the \<^verbatim>\<open>pre('save')\<close> hook
  (\<^verbatim>\<open>End time must be after start time\<close>), then the insert.\<close>

definition Booking_save :: "store \<Rightarrow> time \<Rightarrow> booking \<Rightarrow> error + store" where
  "Booking_save st now b =
     (if \<not> Booking_validate now b then Inl ValidationError
      else if endTime b \<le> startTime b then Inl ValidationError
      else Inr (st\<lparr>bookings := bookings st @ [b]\<rparr>))"

subsection \<open>BookingService\<close>

text \<open>The \<^verbatim>\<open>startTime\<close> a caller passes: absent (falsy), a value \<^verbatim>\<open>new Date\<close> cannot parse, or a
  value that parses to a time.\<close>

datatype timeInput = NoTime | BadTime | TimeAt time

fun newDate :: "timeInput \<Rightarrow> time option" where
  "newDate NoTime = None"
| "newDate BadTime = None"
| "newDate (TimeAt t) = Some t"

record bookingData =
  bd_vehicleId :: "oid option"
  bd_fromPincode :: jsval
  bd_toPincode :: jsval
  bd_startTime :: timeInput
  bd_customerId :: string

text \<open>
  \<^verbatim>\<open>createBooking(bookingData)\<close>. \<^verbatim>\<open>new Booking({...})\<close> casts the pincodes and the customer id
  to trimmed strings and gives the document its \<^verbatim>\<open>_id\<close>; \<^verbatim>\<open>save\<close> stamps \<^verbatim>\<open>createdAt\<close> and
  \<^verbatim>\<open>updatedAt\<close>. \<^verbatim>\<open>populate('vehicleId')\<close> joins the vehicle into the returned object and writes
  nothing; the embedding returns the booking document.
\<close>

definition createBooking ::
    "store \<Rightarrow> time \<Rightarrow> oid \<Rightarrow> bookingData \<Rightarrow> (error + booking) \<times> store" where
  "createBooking st now newId bookingData =
     (case bd_vehicleId bookingData of
        None \<Rightarrow> (Inl MissingFields, st)
      | Some vid \<Rightarrow>
        if \<not> truthy (bd_fromPincode bookingData) \<or> \<not> truthy (bd_toPincode bookingData)
           \<or> bd_startTime bookingData = NoTime \<or> bd_customerId bookingData = []
        then (Inl MissingFields, st)
        else
          (case Vehicle_findById st vid of
             None \<Rightarrow> (Inl VehicleNotFound, st)
           | Some vehicle \<Rightarrow>
             if v_status vehicle \<noteq> Active then (Inl VehicleNotActive, st)
             else if \<not> isValidPincode (bd_fromPincode bookingData)
                     \<or> \<not> isValidPincode (bd_toPincode bookingData)
             then (Inl InvalidPincode, st)
             else
               (case newDate (bd_startTime bookingData) of
                  None \<Rightarrow> (Inl InvalidTimeFormat, st)
                | Some bookingStartTime \<Rightarrow>
                  if bookingStartTime \<le> now then (Inl PastStartTime, st)
                  else
                    (case calculateEstimatedDuration (bd_fromPincode bookingData)
                            (bd_toPincode bookingData) of
                       Inl e \<Rightarrow> (Inl e, st)
                     | Inr durationHours \<Rightarrow>
                       (case calculateEndTime (Some bookingStartTime) durationHours of
                          Inl e \<Rightarrow> (Inl e, st)
                        | Inr bookingEndTime \<Rightarrow>
                          if findOverlappingBookings st vid bookingStartTime bookingEndTime None
                               \<noteq> []
                          then (Inl SlotUnavailable, st)
                          else
                            let booking =
                                  \<lparr> b_id = newId, vehicleId = vid,
                                    customerId = trim (bd_customerId bookingData),
                                    fromPincode = trim (ToString (bd_fromPincode bookingData)),
                                    toPincode = trim (ToString (bd_toPincode bookingData)),
                                    startTime = bookingStartTime, endTime = bookingEndTime,
                                    estimatedRideDurationHours = durationHours,
                                    status = Confirmed,
                                    actualStartTime = None, actualEndTime = None,
                                    b_notes = None, createdAt = now, updatedAt = now \<rparr>
                            in (case Booking_save st now booking of
                                  Inl e \<Rightarrow> (Inl e, st)
                                | Inr st' \<Rightarrow> (Inr booking, st')))))))"

text \<open>
  \<^verbatim>\<open>updateBookingStatus(bookingId, status, additionalData = {})\<close>. The controller passes
  \<^verbatim>\<open>notes\<close> as the only extra field and \<^verbatim>\<open>cancelBooking\<close> does the same; the embedding lets a
  caller supply the two actual times as well, the keys that the function itself reads.
  \<^verbatim>\<open>runValidators\<close> checks the length of the notes; the update stamps \<^verbatim>\<open>updatedAt\<close>.
\<close>

record additionalData =
  ad_notes :: "string option"
  ad_actualStartTime :: "time option"
  ad_actualEndTime :: "time option"

definition noAdditionalData :: additionalData where
  "noAdditionalData = \<lparr> ad_notes = None, ad_actualStartTime = None, ad_actualEndTime = None \<rparr>"

definition orKeep :: "'a option \<Rightarrow> 'a option \<Rightarrow> 'a option" where
  "orKeep new old = (case new of None \<Rightarrow> old | Some x \<Rightarrow> Some x)"

definition updateBookingStatus ::
    "store \<Rightarrow> time \<Rightarrow> oid \<Rightarrow> bookingStatus \<Rightarrow> additionalData \<Rightarrow> (error + booking) \<times> store" where
  "updateBookingStatus st now bookingId newStatus extra =
     (let upd_actualStartTime =
            (if newStatus = InProgress \<and> ad_actualStartTime extra = None then Some now
             else ad_actualStartTime extra);
          upd_actualEndTime =
            (if newStatus = Completed \<and> ad_actualEndTime extra = None then Some now
             else ad_actualEndTime extra);
          apply_update = (\<lambda>b. b\<lparr> status := newStatus,
                                  b_notes := orKeep (ad_notes extra) (b_notes b),
                                  actualStartTime := orKeep upd_actualStartTime (actualStartTime b),
                                  actualEndTime := orKeep upd_actualEndTime (actualEndTime b),
                                  updatedAt := now \<rparr>)
      in if (case ad_notes extra of None \<Rightarrow> False | Some n \<Rightarrow> length n > 500)
         then (Inl ValidationError, st)
         else
           (case Booking_findById st bookingId of
              None \<Rightarrow> (Inl BookingNotFound, st)
            | Some b \<Rightarrow>
                (Inr (apply_update b),
                 st\<lparr>bookings := updateFirst (\<lambda>x. b_id x = bookingId) apply_update (bookings st)\<rparr>)))"

definition cancelBooking ::
    "store \<Rightarrow> time \<Rightarrow> oid \<Rightarrow> string \<Rightarrow> (error + booking) \<times> store" where
  "cancelBooking st now bookingId reason =
     (case Booking_findById st bookingId of
        None \<Rightarrow> (Inl BookingNotFound, st)
      | Some booking \<Rightarrow>
          if status booking = Completed then (Inl AlreadyCompleted, st)
          else if status booking = Cancelled then (Inl AlreadyCancelled, st)
          else
            let timeDiff = startTime booking - now;
                hoursDiff = (of_int timeDiff :: rat) / (1000 * 60 * 60)
            in if hoursDiff < 2 then (Inl TooCloseToStart, st)
               else updateBookingStatus st now bookingId Cancelled
                      \<lparr> ad_notes = Some (if reason \<noteq> [] then ''Cancelled: '' @ reason
                                           else ''Cancelled by user''),
                        ad_actualStartTime = None, ad_actualEndTime = None \<rparr>)"

definition deleteBooking :: "store \<Rightarrow> oid \<Rightarrow> (error + bool) \<times> store" where
  "deleteBooking st bookingId =
     (case Booking_findById st bookingId of
        None \<Rightarrow> (Inl BookingNotFound, st)
      | Some booking \<Rightarrow>
          if status booking \<noteq> Cancelled then (Inl NotCancelled, st)
          else (Inr True, st\<lparr>bookings := removeFirst (\<lambda>x. b_id x = bookingId) (bookings st)\<rparr>))"

subsection \<open>VehicleService\<close>

definition getVehicleById :: "store \<Rightarrow> oid \<Rightarrow> error + vehicle" where
  "getVehicleById st vid =
     (case Vehicle_findById st vid of None \<Rightarrow> Inl VehicleNotFound | Some vehicle \<Rightarrow> Inr vehicle)"

definition updateVehicleStatus ::
    "store \<Rightarrow> time \<Rightarrow> oid \<Rightarrow> vehicleStatus \<Rightarrow> (error + vehicle) \<times> store" where
  "updateVehicleStatus st now vid newStatus =
     (let apply_update = (\<lambda>v. v\<lparr> v_status := newStatus, v_updatedAt := now \<rparr>)
      in case Vehicle_findById st vid of
           None \<Rightarrow> (Inl VehicleNotFound, st)
         | Some v \<Rightarrow>
             (Inr (apply_update v),
              st\<lparr>vehicles := updateFirst (\<lambda>x. v_id x = vid) apply_update (vehicles st)\<rparr>))"

text \<open>\<^verbatim>\<open>deleteVehicle(vehicleId)\<close>: the soft delete. The bookings are looked at first, the
  vehicle after.\<close>

definition deleteVehicle :: "store \<Rightarrow> time \<Rightarrow> oid \<Rightarrow> (error + vehicle) \<times> store" where
  "deleteVehicle st now vid =
     (let activeBookings =
            filter (\<lambda>b. vehicleId b = vid \<and> (status b = Confirmed \<or> status b = InProgress))
              (bookings st);
          apply_update = (\<lambda>v. v\<lparr> v_status := Retired, v_updatedAt := now \<rparr>)
      in if length activeBookings > 0 then (Inl HasActiveBookings, st)
         else
           (case Vehicle_findById st vid of
              None \<Rightarrow> (Inl VehicleNotFound, st)
            | Some v \<Rightarrow>
                (Inr (apply_update v),
                 st\<lparr>vehicles := updateFirst (\<lambda>x. v_id x = vid) apply_update (vehicles st)\<rparr>)))"

record criteria =
  capacityRequired :: "rat option"
  c_fromPincode :: jsval
  c_toPincode :: jsval
  c_startTime :: timeInput

record searchCriteria =
  sc_fromPincode :: jsval
  sc_toPincode :: jsval
  requestedStartTime :: time
  requestedEndTime :: time

text \<open>An element of the result: \<^verbatim>\<open>vehicle.toObject()\<close> (the document with its virtual \<^verbatim>\<open>type\<close>)
  and the three attached fields.\<close>

record availableVehicle =
  av_vehicle :: vehicle
  av_type :: string
  av_estimatedRideDurationHours :: rat
  av_routeInfo :: routeInfo
  av_searchCriteria :: searchCriteria

definition enrich ::
    "jsval \<Rightarrow> jsval \<Rightarrow> rat \<Rightarrow> time \<Rightarrow> time \<Rightarrow> vehicle \<Rightarrow> routeInfo \<Rightarrow> availableVehicle" where
  "enrich fromP toP durationHours startT endT vehicle info =
     \<lparr> av_vehicle = vehicle, av_type = vehicleType vehicle,
       av_estimatedRideDurationHours = durationHours, av_routeInfo = info,
       av_searchCriteria = \<lparr> sc_fromPincode = fromP, sc_toPincode = toP,
                              requestedStartTime = startT, requestedEndTime = endT \<rparr> \<rparr>"

text \<open>
  The \<^verbatim>\<open>for (const vehicle of eligibleVehicles)\<close> loop. Its state is the array
  \<^verbatim>\<open>availableVehicles\<close> and, for the claims about the queries it issues, the list of the
  vehicle ids for which \<^verbatim>\<open>Booking.findOverlappingBookings\<close> has been called so far.
\<close>

fun availabilityLoop ::
    "store \<Rightarrow> jsval \<Rightarrow> jsval \<Rightarrow> rat \<Rightarrow> time \<Rightarrow> time \<Rightarrow> vehicle list
       \<Rightarrow> availableVehicle list \<Rightarrow> oid list
       \<Rightarrow> (error + availableVehicle list) \<times> oid list" where
  "availabilityLoop st fromP toP dur startT endT [] availableVehicles queried =
     (Inr availableVehicles, queried)"
| "availabilityLoop st fromP toP dur startT endT (vehicle # rest) availableVehicles queried =
     (let overlappingBookings = findOverlappingBookings st (v_id vehicle) startT endT None;
          queried' = queried @ [v_id vehicle]
      in if length overlappingBookings = 0 then
           (case getRouteInfo fromP toP (capacityKg vehicle) of
              Inl e \<Rightarrow> (Inl e, queried')
            | Inr info \<Rightarrow>
                availabilityLoop st fromP toP dur startT endT rest
                  (availableVehicles @ [enrich fromP toP dur startT endT vehicle info]) queried')
         else availabilityLoop st fromP toP dur startT endT rest availableVehicles queried')"

text \<open>\<^verbatim>\<open>!capacityRequired\<close>: an absent value and the number 0 are falsy.\<close>

definition findAvailableVehicles ::
    "store \<Rightarrow> time \<Rightarrow> criteria \<Rightarrow> (error + availableVehicle list) \<times> oid list" where
  "findAvailableVehicles st now crit =
     (case capacityRequired crit of
        None \<Rightarrow> (Inl MissingCriteria, [])
      | Some cap \<Rightarrow>
        if cap = 0 \<or> \<not> truthy (c_fromPincode crit) \<or> \<not> truthy (c_toPincode crit)
           \<or> c_startTime crit = NoTime
        then (Inl MissingCriteria, [])
        else if \<not> isValidPincode (c_fromPincode crit) \<or> \<not> isValidPincode (c_toPincode crit)
        then (Inl InvalidPincode, [])
        else
          (case newDate (c_startTime crit) of
             None \<Rightarrow> (Inl InvalidTimeFormat, [])
           | Some requestedStart \<Rightarrow>
             if requestedStart \<le> now then (Inl PastStartTime, [])
             else
               (case calculateEstimatedDuration (c_fromPincode crit) (c_toPincode crit) of
                  Inl e \<Rightarrow> (Inl e, [])
                | Inr durationHours \<Rightarrow>
                  (case calculateEndTime (Some requestedStart) durationHours of
                     Inl e \<Rightarrow> (Inl e, [])
                   | Inr requestedEnd \<Rightarrow>
                       let eligibleVehicles =
                             filter (\<lambda>v. capacityKg v \<ge> cap \<and> v_status v = Active) (vehicles st)
                       in if length eligibleVehicles = 0 then (Inr [], [])
                          else availabilityLoop st (c_fromPincode crit) (c_toPincode crit)
                                 durationHours requestedStart requestedEnd eligibleVehicles [] []))))"

record dateRange =
  startDate :: "time option"
  endDate :: "time option"

record utilizationStats =
  us_vehicleId :: oid
  vehicleName :: string
  totalBookings :: nat
  confirmedBookings :: nat
  completedBookings :: nat
  cancelledBookings :: nat
  totalHoursBooked :: rat
  averageRideDuration :: rat

text \<open>\<^verbatim>\<open>getVehicleUtilization(vehicleId, dateRange = {})\<close>; the two dates of the range are the
  parsed \<^verbatim>\<open>startDate\<close> and \<^verbatim>\<open>endDate\<close>, \<open>None\<close> when the caller gave none.\<close>

definition getVehicleUtilization :: "store \<Rightarrow> oid \<Rightarrow> dateRange \<Rightarrow> error + utilizationStats" where
  "getVehicleUtilization st vid dr =
     (case getVehicleById st vid of
        Inl e \<Rightarrow> Inl e
      | Inr vehicle \<Rightarrow>
          let fetched =
                filter (\<lambda>b. vehicleId b = v_id vehicle
                           \<and> (case startDate dr of None \<Rightarrow> True | Some d \<Rightarrow> createdAt b \<ge> d)
                           \<and> (case endDate dr of None \<Rightarrow> True | Some d \<Rightarrow> createdAt b \<le> d))
                  (bookings st)
          in Inr \<lparr> us_vehicleId = v_id vehicle,
                   vehicleName = name vehicle,
                   totalBookings = length fetched,
                   confirmedBookings = length (filter (\<lambda>b. status b = Confirmed) fetched),
                   completedBookings = length (filter (\<lambda>b. status b = Completed) fetched),
                   cancelledBookings = length (filter (\<lambda>b. status b = Cancelled) fetched),
                   totalHoursBooked =
                     foldl (\<lambda>sum b. sum + estimatedRideDurationHours b) 0 fetched,
                   averageRideDuration =
                     (if length fetched > 0
                      then foldl (\<lambda>sum b. sum + estimatedRideDurationHours b) 0 fetched
                             / of_nat (length fetched)
                      else 0) \<rparr>)"

subsection \<open>Notions of the specification\<close>

text \<open>
  The number that a pincode denotes (the specification's \<open>int(p)\<close>), written out by position
  for a string of six digits.
\<close>

definition pincodeNumber :: "string \<Rightarrow> int" where
  "pincodeNumber p =
     100000 * digitVal (p ! 0) + 10000 * digitVal (p ! 1) + 1000 * digitVal (p ! 2)
       + 100 * digitVal (p ! 3) + 10 * digitVal (p ! 4) + digitVal (p ! 5)"

text \<open>The requested window's length in milliseconds, for a duration in hours.\<close>

definition hoursToMs :: "rat \<Rightarrow> int" where
  "hoursToMs d = \<lfloor>d * 3600000\<rfloor>"

text \<open>
  The input validations of \<open>createBooking\<close> in the specification's words: the five fields are
  present, the vehicle exists and is active, both pincodes are valid, and the start time
  parses and is strictly in the future.
\<close>

definition inputsValid :: "store \<Rightarrow> time \<Rightarrow> bookingData \<Rightarrow> bool" where
  "inputsValid st now bd =
     ((case bd_vehicleId bd of
         None \<Rightarrow> False
       | Some vid \<Rightarrow>
           (case Vehicle_findById st vid of None \<Rightarrow> False | Some v \<Rightarrow> v_status v = Active))
      \<and> truthy (bd_fromPincode bd) \<and> truthy (bd_toPincode bd)
      \<and> bd_startTime bd \<noteq> NoTime \<and> bd_customerId bd \<noteq> []
      \<and> isValidPincode (bd_fromPincode bd) \<and> isValidPincode (bd_toPincode bd)
      \<and> (case newDate (bd_startTime bd) of None \<Rightarrow> False | Some t \<Rightarrow> now < t))"

text \<open>The overlap query for the requested vehicle and the computed window
  \<open>[startTime, startTime + durationHours)\<close>; no bookings when there is no such window.\<close>

definition requestedOverlaps :: "store \<Rightarrow> bookingData \<Rightarrow> booking list" where
  "requestedOverlaps st bd =
     (case (bd_vehicleId bd, newDate (bd_startTime bd),
            calculateEstimatedDuration (bd_fromPincode bd) (bd_toPincode bd)) of
        (Some vid, Some t, Inr d) \<Rightarrow> findOverlappingBookings st vid t (t + hoursToMs d) None
      | _ \<Rightarrow> [])"

text \<open>The bookings that the utilization statistics fetch: those of the vehicle whose creation
  time lies in the range, whatever their status.\<close>

definition fetchedBookings :: "store \<Rightarrow> oid \<Rightarrow> dateRange \<Rightarrow> booking list" where
  "fetchedBookings st vid dr =
     filter (\<lambda>b. vehicleId b = vid
                \<and> (case startDate dr of None \<Rightarrow> True | Some d \<Rightarrow> d \<le> createdAt b)
                \<and> (case endDate dr of None \<Rightarrow> True | Some d \<Rightarrow> createdAt b \<le> d))
       (bookings st)"

text \<open>
  The invariant of the data model: two different bookings of one vehicle that are both
  confirmed or in progress have disjoint intervals \<open>[startTime, endTime)\<close>.
\<close>

definition noDoubleBooking :: "store \<Rightarrow> bool" where
  "noDoubleBooking st =
     (\<forall>a \<in> set (bookings st). \<forall>b \<in> set (bookings st).
        b_id a \<noteq> b_id b \<and> vehicleId a = vehicleId b
        \<and> isActiveStatus (status a) \<and> isActiveStatus (status b)
        \<longrightarrow> {startTime a ..< endTime a} \<inter> {startTime b ..< endTime b} = {})"

subsection \<open>Sample documents and runs\<close>

definition sampleBooking ::
    "oid \<Rightarrow> oid \<Rightarrow> time \<Rightarrow> time \<Rightarrow> rat \<Rightarrow> bookingStatus \<Rightarrow> time \<Rightarrow> booking" where
  "sampleBooking i vid s e d stat created =
     \<lparr> b_id = i, vehicleId = vid, customerId = ''CUSTOMER_1'', fromPincode = ''110001'',
       toPincode = ''110002'', startTime = s, endTime = e, estimatedRideDurationHours = d,
       status = stat, actualStartTime = None, actualEndTime = None, b_notes = None,
       createdAt = created, updatedAt = created \<rparr>"

definition sampleVehicle :: "oid \<Rightarrow> rat \<Rightarrow> vehicleStatus \<Rightarrow> vehicle" where
  "sampleVehicle i cap stat =
     \<lparr> v_id = i, name = ''Test Vehicle'', capacityKg = cap, tyres = 4, v_status = stat,
       registrationNumber = ''FL-1'', v_createdAt = 0, v_updatedAt = 0 \<rparr>"

definition overlapStore :: store where
  "overlapStore =
     \<lparr> vehicles = [],
       bookings = [sampleBooking 1 7 100 200 1 Confirmed 0, sampleBooking 2 7 200 300 1 InProgress 0,
                   sampleBooking 3 7 50 100 1 Confirmed 0, sampleBooking 4 7 120 130 1 Cancelled 0,
                   sampleBooking 5 8 120 130 1 Confirmed 0, sampleBooking 6 7 199 200 1 InProgress 0] \<rparr>"

text \<open>
  A run on one vehicle: a booking is created for a window, cancelled, a second booking is
  created for the same window, and the first is set back to confirmed.
\<close>

definition fleet0 :: store where
  "fleet0 = \<lparr> vehicles = [sampleVehicle 7 1000 Active], bookings = [] \<rparr>"

definition request :: "time \<Rightarrow> bookingData" where
  "request t = \<lparr> bd_vehicleId = Some 7, bd_fromPincode = JStr ''110001'',
                 bd_toPincode = JStr ''110002'', bd_startTime = TimeAt t,
                 bd_customerId = ''CUSTOMER_1'' \<rparr>"

definition fleet1 :: store where
  "fleet1 = snd (createBooking fleet0 0 11 (request 10000000))"

definition fleet2 :: store where
  "fleet2 = snd (cancelBooking fleet1 0 11 [])"

definition fleet3 :: store where
  "fleet3 = snd (createBooking fleet2 0 12 (request 10000000))"

definition fleet4 :: store where
  "fleet4 = snd (updateBookingStatus fleet3 0 11 Confirmed noAdditionalData)"

definition startedStore :: store where
  "startedStore =
     \<lparr> vehicles = [sampleVehicle 7 1000 Active],
       bookings = [(sampleBooking 21 7 100 200 1 InProgress 0)\<lparr>actualStartTime := Some 5\<rparr>,
                   sampleBooking 22 7 300 400 1 Confirmed 0] \<rparr>"

definition retireStore :: store where
  "retireStore =
     \<lparr> vehicles = [sampleVehicle 7 1000 Active, sampleVehicle 8 2000 Active],
       bookings = [sampleBooking 31 7 100 200 1 Confirmed 0,
                   sampleBooking 32 8 100 200 1 Cancelled 0,
                   sampleBooking 33 8 300 400 1 Completed 0] \<rparr>"

definition utilizationStore :: store where
  "utilizationStore =
     \<lparr> vehicles = [sampleVehicle 7 1000 Active],
       bookings = [sampleBooking 41 7 100 200 2 Confirmed 10,
                   sampleBooking 42 7 300 400 4 Cancelled 20,
                   sampleBooking 43 8 300 400 5 Completed 20,
                   sampleBooking 44 7 500 600 (1 / 2) Completed 90] \<rparr>"

definition searchStore :: store where
  "searchStore =
     \<lparr> vehicles = [sampleVehicle 7 1000 Active, sampleVehicle 8 2000 Active,
                   sampleVehicle 9 3000 Maintenance, sampleVehicle 10 400 Active],
       bookings = [sampleBooking 51 7 10000000 13600000 1 Confirmed 0,
                   sampleBooking 52 8 13600000 17200000 1 Confirmed 0] \<rparr>"

definition searchCriteria0 :: criteria where
  "searchCriteria0 =
     \<lparr> capacityRequired = Some 500, c_fromPincode = JStr ''110001'',
       c_toPincode = JStr ''110002'', c_startTime = TimeAt 10000000 \<rparr>"

definition costStore :: store where
  "costStore = \<lparr> vehicles = [sampleVehicle 13 1001 Active], bookings = [] \<rparr>"

definition costCriteria :: criteria where
  "costCriteria =
     \<lparr> capacityRequired = Some 1001, c_fromPincode = JStr ''110001'',
       c_toPincode = JStr ''110004'', c_startTime = TimeAt 10000000 \<rparr>"

section \<open>Properties\<close>

subsection \<open>The route estimator\<close>

lemma takeWhile_all: "list_all P xs \<Longrightarrow> takeWhile P xs = xs"
  by (induction xs) auto

lemma length6E:
  assumes "length s = 6"
  obtains a b c d e f where "s = [a, b, c, d, e, f]"
proof -
  from assms obtain a s1 where 1: "s = a # s1" "length s1 = 5" by (cases s) auto
  then obtain b s2 where 2: "s1 = b # s2" "length s2 = 4" by (cases s1) auto
  then obtain c s3 where 3: "s2 = c # s3" "length s3 = 3" by (cases s2) auto
  then obtain d s4 where 4: "s3 = d # s4" "length s4 = 2" by (cases s3) auto
  then obtain e s5 where 5: "s4 = e # s5" "length s5 = 1" by (cases s4) auto
  then obtain f where 6: "s5 = [f]" by (cases s5) auto
  from 1 2 3 4 5 6 that show thesis by simp
qed

text \<open>Behind the guard, \<open>parseInt\<close> reads the whole string.\<close>

lemma parseInt_pincode:
  assumes "isValidPincode (JStr s)"
  shows "parseInt (JStr s) = pincodeNumber s"
proof -
  from assms have len: "length s = 6" and dig: "list_all isDigit s"
    by (simp_all add: isValidPincode_def)
  from len obtain a b c d e f where s: "s = [a, b, c, d, e, f]" by (rule length6E)
  have "parseInt (JStr s) = decimal s"
    using dig by (simp add: parseInt_def takeWhile_all)
  also have "\<dots> = pincodeNumber s"
    by (simp add: s decimal_def pincodeNumber_def)
  finally show ?thesis .
qed

lemma duration_shape:
  fixes k :: int
  assumes "0 \<le> k" "k < 24"
  shows "max (of_int k) (1 / 2 :: rat) = 1 / 2 \<and> k = 0
         \<or> max (of_int k) (1 / 2 :: rat) = of_int k \<and> 1 \<le> k"
proof (cases "k = 0")
  case True
  then show ?thesis by simp
next
  case False
  with assms have k: "1 \<le> k" by simp
  then have "(1 :: rat) \<le> of_int k" by simp
  then have "(1 / 2 :: rat) \<le> of_int k" by linarith
  then show ?thesis using k by (simp add: max_def)
qed

text \<open>
  Claim C5. For valid six-digit pincode strings \<open>p\<close> and \<open>q\<close>, the estimated duration is
  \<open>max (|int q - int p| mod 24) 0.5\<close>; it is the same in both directions and at least 0.5; and
  the durations from 110001 to 110005, 110030 and 110050 are 4, 5 and 1.
\<close>

theorem calculateEstimatedDuration_formula:
  "(isValidPincode (JStr p) \<and> isValidPincode (JStr q) \<longrightarrow>
      calculateEstimatedDuration (JStr p) (JStr q)
        = Inr (max (of_int (\<bar>pincodeNumber q - pincodeNumber p\<bar> mod 24)) (1 / 2))
      \<and> calculateEstimatedDuration (JStr p) (JStr q)
          = calculateEstimatedDuration (JStr q) (JStr p)
      \<and> (\<exists>d. calculateEstimatedDuration (JStr p) (JStr q) = Inr d \<and> d \<ge> 1 / 2))
   \<and> calculateEstimatedDuration (JStr ''110001'') (JStr ''110005'') = Inr 4
   \<and> calculateEstimatedDuration (JStr ''110001'') (JStr ''110030'') = Inr 5
   \<and> calculateEstimatedDuration (JStr ''110001'') (JStr ''110050'') = Inr 1"
proof -
  have general: "isValidPincode (JStr p) \<and> isValidPincode (JStr q) \<longrightarrow>
      calculateEstimatedDuration (JStr p) (JStr q)
        = Inr (max (of_int (\<bar>pincodeNumber q - pincodeNumber p\<bar> mod 24)) (1 / 2))
      \<and> calculateEstimatedDuration (JStr p) (JStr q)
          = calculateEstimatedDuration (JStr q) (JStr p)
      \<and> (\<exists>d. calculateEstimatedDuration (JStr p) (JStr q) = Inr d \<and> d \<ge> 1 / 2)"
    by (auto simp add: calculateEstimatedDuration_def parseInt_pincode Let_def abs_minus_commute)
  have e1: "calculateEstimatedDuration (JStr ''110001'') (JStr ''110005'') = Inr 4"
    by (simp add: calculateEstimatedDuration_def isValidPincode_def isDigit_def parseInt_def
        decimal_def digitVal_def)
  have e2: "calculateEstimatedDuration (JStr ''110001'') (JStr ''110030'') = Inr 5"
    by (simp add: calculateEstimatedDuration_def isValidPincode_def isDigit_def parseInt_def
        decimal_def digitVal_def)
  have e3: "calculateEstimatedDuration (JStr ''110001'') (JStr ''110050'') = Inr 1"
    by (simp add: calculateEstimatedDuration_def isValidPincode_def isDigit_def parseInt_def
        decimal_def digitVal_def)
  from general e1 e2 e3 show ?thesis by blast
qed

theorem calculateEstimatedDuration_formula_witness:
  "calculateEstimatedDuration (JStr ''110030'') (JStr ''110001'') = Inr 5
   \<and> calculateEstimatedDuration (JStr ''110030'') (JStr ''110001'')
       = calculateEstimatedDuration (JStr ''110001'') (JStr ''110030'')
   \<and> pincodeNumber ''110030'' = 110030 \<and> pincodeNumber ''110001'' = 110001"
  using calculateEstimatedDuration_formula [of "''110030''" "''110001''"]
  by (simp add: isValidPincode_def isDigit_def pincodeNumber_def digitVal_def)

text \<open>
  Claim C6. \<open>isValidPincode\<close> is to reject every input of numeric type. It accepts the number
  110001: \<^verbatim>\<open>test\<close> converts it to the string of its six digits. The strings of the repository's
  tests are judged as the claim says.
\<close>

theorem isValidPincode_accepts_number:
  "isValidPincode (JNum 110001)
   \<and> isValidPincode (JStr ''110001'') \<and> isValidPincode (JStr ''000000'')
   \<and> isValidPincode (JStr ''999999'')
   \<and> \<not> isValidPincode (JStr ''11001'') \<and> \<not> isValidPincode (JStr ''1100012'')
   \<and> \<not> isValidPincode (JStr ''11000a'') \<and> \<not> isValidPincode (JStr ''110-001'')
   \<and> \<not> isValidPincode (JStr '''') \<and> \<not> isValidPincode JNull"
  by (simp add: isValidPincode_def showNat.simps isDigit_def)

lemma timeClip_eqI: "x = of_int n \<Longrightarrow> timeClip x = n"
  by (simp add: timeClip_def)

text \<open>Whatever passes the guard, the duration is a half or a whole number from 1 to 23.\<close>

lemma duration_cases:
  assumes "calculateEstimatedDuration a b = Inr d"
  shows "d = 1 / 2 \<or> (\<exists>k::int. 1 \<le> k \<and> k \<le> 23 \<and> d = of_int k)"
proof -
  define k where "k = \<bar>parseInt b - parseInt a\<bar> mod 24"
  have k: "0 \<le> k" "k < 24" by (simp_all add: k_def)
  from assms have d: "d = max (of_int k) (1 / 2)"
    by (simp add: calculateEstimatedDuration_def Let_def k_def split: if_splits)
  from duration_shape [OF k] show ?thesis
  proof
    assume "max (of_int k) (1 / 2 :: rat) = 1 / 2 \<and> k = 0"
    with d show ?thesis by simp
  next
    assume "max (of_int k) (1 / 2 :: rat) = of_int k \<and> 1 \<le> k"
    with d k have "1 \<le> k \<and> k \<le> 23 \<and> d = of_int k" by simp
    then show ?thesis by blast
  qed
qed

text \<open>For such a duration the end time is exact, later than the start, and at most 23 hours
  after it.\<close>

lemma calculateEndTime_exact:
  assumes "calculateEstimatedDuration a b = Inr d"
  shows "\<exists>e. calculateEndTime (Some t) d = Inr e \<and> (of_int e :: rat) = of_int t + d * 3600000
            \<and> t < e \<and> e - t \<le> 23 * 3600000"
proof -
  from duration_cases [OF assms] show ?thesis
  proof
    assume d: "d = 1 / 2"
    have "timeClip (of_int t + d * 60 * 60 * 1000) = t + 1800000"
      by (rule timeClip_eqI) (simp add: d)
    then have "calculateEndTime (Some t) d = Inr (t + 1800000)"
      by (simp add: calculateEndTime_def d)
    then show ?thesis by (simp add: d)
  next
    assume "\<exists>k::int. 1 \<le> k \<and> k \<le> 23 \<and> d = of_int k"
    then obtain k :: int where k: "1 \<le> k" "k \<le> 23" and d: "d = of_int k" by blast
    have "timeClip (of_int t + d * 60 * 60 * 1000) = t + k * 3600000"
      by (rule timeClip_eqI) (simp add: d)
    moreover have "\<not> (d = 0 \<or> d \<le> 0)" using k by (simp add: d)
    ultimately have "calculateEndTime (Some t) d = Inr (t + k * 3600000)"
      by (simp add: calculateEndTime_def)
    then show ?thesis using k by (simp add: d)
  qed
qed

subsection \<open>The overlap query\<close>

text \<open>
  Claim C2. For a window \<open>newStart < newEnd\<close>, \<open>findOverlappingBookings\<close> returns exactly the
  stored bookings of the vehicle that are confirmed or in progress and satisfy
  \<open>startTime < newEnd\<close> and \<open>endTime > newStart\<close>, the excluded id left out. A booking that
  only touches the window at an end point is not returned, and neither is the booking whose
  id is the excluded one.
\<close>

theorem findOverlappingBookings_exact:
  "newStart < newEnd \<longrightarrow>
     findOverlappingBookings st vid newStart newEnd ex
       = filter (\<lambda>b. vehicleId b = vid \<and> (status b = Confirmed \<or> status b = InProgress)
                     \<and> startTime b < newEnd \<and> endTime b > newStart \<and> ex \<noteq> Some (b_id b))
           (bookings st)
     \<and> (b \<in> set (findOverlappingBookings st vid newStart newEnd ex) \<longleftrightarrow>
          b \<in> set (bookings st) \<and> vehicleId b = vid
          \<and> (status b = Confirmed \<or> status b = InProgress)
          \<and> startTime b < newEnd \<and> endTime b > newStart \<and> ex \<noteq> Some (b_id b))
     \<and> (endTime b = newStart \<or> startTime b = newEnd \<longrightarrow>
          b \<notin> set (findOverlappingBookings st vid newStart newEnd ex))
     \<and> b \<notin> set (findOverlappingBookings st vid newStart newEnd (Some (b_id b)))"
proof -
  have eq: "findOverlappingBookings st vid newStart newEnd ex
       = filter (\<lambda>b. vehicleId b = vid \<and> (status b = Confirmed \<or> status b = InProgress)
                     \<and> startTime b < newEnd \<and> endTime b > newStart \<and> ex \<noteq> Some (b_id b))
           (bookings st)" for ex
    unfolding findOverlappingBookings_def isActiveStatus_def
    by (rule filter_cong) (auto split: option.splits)
  show ?thesis
    unfolding eq by auto
qed

theorem findOverlappingBookings_exact_witness:
  "findOverlappingBookings overlapStore 7 100 200 (Some 6) = [sampleBooking 1 7 100 200 1 Confirmed 0]
   \<and> sampleBooking 2 7 200 300 1 InProgress 0
        \<notin> set (findOverlappingBookings overlapStore 7 100 200 (Some 6))
   \<and> sampleBooking 2 7 200 300 1 InProgress 0 \<in> set (bookings overlapStore)"
  using findOverlappingBookings_exact [of 100 200 overlapStore 7 "Some 6"
      "sampleBooking 2 7 200 300 1 InProgress 0"]
  by (simp add: sampleBooking_def overlapStore_def)

subsection \<open>Creating a booking\<close>

lemma calculateEndTime_hoursToMs:
  assumes "calculateEstimatedDuration a b = Inr d"
  shows "calculateEndTime (Some t) d = Inr (t + hoursToMs d)"
proof -
  from calculateEndTime_exact [OF assms, of t] obtain e where
    e: "calculateEndTime (Some t) d = Inr e" "(of_int e :: rat) = of_int t + d * 3600000" by blast
  then have "d * 3600000 = (of_int (e - t) :: rat)" by simp
  then have "hoursToMs d = e - t" unfolding hoursToMs_def by (simp only: floor_of_int)
  with e show ?thesis by simp
qed

lemma calculateEstimatedDuration_Inl:
  "calculateEstimatedDuration a b = Inl e \<Longrightarrow> e = InvalidPincode"
  by (simp add: calculateEstimatedDuration_def Let_def split: if_splits)

lemma calculateEstimatedDuration_valid:
  "isValidPincode a \<Longrightarrow> isValidPincode b \<Longrightarrow> \<exists>d. calculateEstimatedDuration a b = Inr d"
  by (simp add: calculateEstimatedDuration_def Let_def)

lemma calculateEndTime_Inl:
  "calculateEndTime s d = Inl e \<Longrightarrow> e = InvalidTimeFormat \<or> e = InvalidDuration"
  by (auto simp add: calculateEndTime_def split: option.splits if_splits)

lemma Booking_save_Inl: "Booking_save st now b = Inl e \<Longrightarrow> e = ValidationError"
  by (simp add: Booking_save_def split: if_splits)

lemma Booking_save_Inr:
  "Booking_save st now b = Inr st' \<Longrightarrow> st' = st\<lparr>bookings := bookings st @ [b]\<rparr>"
  by (simp add: Booking_save_def split: if_splits)

lemma createBooking_failure:
  "createBooking st now newId bd = (Inl e, st') \<Longrightarrow> st' = st"
  by (auto simp add: createBooking_def Let_def split: option.splits sum.splits if_splits)

lemma createBooking_success:
  assumes "createBooking st now newId bd = (Inr b, st')"
  shows "st' = st\<lparr>bookings := bookings st @ [b]\<rparr>
         \<and> status b = Confirmed \<and> b_id b = newId
         \<and> (\<exists>vid t d. bd_vehicleId bd = Some vid \<and> vehicleId b = vid
               \<and> newDate (bd_startTime bd) = Some t \<and> startTime b = t \<and> now < t
               \<and> calculateEstimatedDuration (bd_fromPincode bd) (bd_toPincode bd) = Inr d
               \<and> estimatedRideDurationHours b = d
               \<and> calculateEndTime (Some t) d = Inr (endTime b)
               \<and> findOverlappingBookings st vid t (endTime b) None = [])"
  using assms
  by (auto simp add: createBooking_def Let_def dest!: Booking_save_Inr
      split: option.splits sum.splits if_splits)

lemma createBooking_SlotUnavailable:
  "fst (createBooking st now newId bd) = Inl SlotUnavailable
     \<longleftrightarrow> inputsValid st now bd \<and> requestedOverlaps st bd \<noteq> []"
proof
  assume "fst (createBooking st now newId bd) = Inl SlotUnavailable"
  then show "inputsValid st now bd \<and> requestedOverlaps st bd \<noteq> []"
    by (auto simp add: createBooking_def Let_def inputsValid_def requestedOverlaps_def
        calculateEndTime_hoursToMs
        dest: Booking_save_Inl calculateEstimatedDuration_Inl calculateEndTime_Inl
        split: option.splits sum.splits if_splits)
next
  assume a: "inputsValid st now bd \<and> requestedOverlaps st bd \<noteq> []"
  then obtain vid v t where
    f: "bd_vehicleId bd = Some vid" "Vehicle_findById st vid = Some v" "v_status v = Active"
       "truthy (bd_fromPincode bd)" "truthy (bd_toPincode bd)" "bd_startTime bd \<noteq> NoTime"
       "bd_customerId bd \<noteq> []" "isValidPincode (bd_fromPincode bd)"
       "isValidPincode (bd_toPincode bd)" "newDate (bd_startTime bd) = Some t" "now < t"
    by (auto simp add: inputsValid_def split: option.splits)
  from calculateEstimatedDuration_valid [OF f(8,9)] obtain d where
    d: "calculateEstimatedDuration (bd_fromPincode bd) (bd_toPincode bd) = Inr d" by blast
  note e = calculateEndTime_hoursToMs [OF d, of t]
  from a f d have "findOverlappingBookings st vid t (t + hoursToMs d) None \<noteq> []"
    by (simp add: requestedOverlaps_def)
  with f d e show "fst (createBooking st now newId bd) = Inl SlotUnavailable"
    by (simp add: createBooking_def)
qed

text \<open>The run of the sample fleet, step by step.\<close>

lemmas eval_defs = createBooking_def request_def sampleBooking_def sampleVehicle_def
      Vehicle_findById_def Booking_findById_def isValidPincode_def isDigit_def
      calculateEstimatedDuration_def
      parseInt_def decimal_def digitVal_def calculateEndTime_def timeClip_def
      findOverlappingBookings_def isActiveStatus_def Booking_save_def Booking_validate_def
      matchesPincode_def trim_def isSpace_def Let_def cancelBooking_def updateBookingStatus_def
      noAdditionalData_def orKeep_def

lemma run1: "createBooking fleet0 0 11 (request 10000000)
   = (Inr (sampleBooking 11 7 10000000 13600000 1 Confirmed 0),
      \<lparr> vehicles = [sampleVehicle 7 1000 Active],
        bookings = [sampleBooking 11 7 10000000 13600000 1 Confirmed 0] \<rparr>)"
  by (simp add: fleet0_def eval_defs)

lemma fleet1_eq: "fleet1 = \<lparr> vehicles = [sampleVehicle 7 1000 Active],
        bookings = [sampleBooking 11 7 10000000 13600000 1 Confirmed 0] \<rparr>"
  by (simp add: fleet1_def run1)

lemma run1b: "createBooking fleet1 0 12 (request 11000000) = (Inl SlotUnavailable, fleet1)"
  by (simp add: fleet1_eq eval_defs)

lemma run2: "cancelBooking fleet1 0 11 []
   = (Inr ((sampleBooking 11 7 10000000 13600000 1 Cancelled 0)
             \<lparr>b_notes := Some ''Cancelled by user''\<rparr>),
      \<lparr> vehicles = [sampleVehicle 7 1000 Active],
        bookings = [(sampleBooking 11 7 10000000 13600000 1 Cancelled 0)
                      \<lparr>b_notes := Some ''Cancelled by user''\<rparr>] \<rparr>)"
  by (simp add: fleet1_eq eval_defs)

lemma fleet2_eq: "fleet2 = \<lparr> vehicles = [sampleVehicle 7 1000 Active],
        bookings = [(sampleBooking 11 7 10000000 13600000 1 Cancelled 0)
                      \<lparr>b_notes := Some ''Cancelled by user''\<rparr>] \<rparr>"
  by (simp add: fleet2_def run2)

lemma run3: "createBooking fleet2 0 12 (request 10000000)
   = (Inr (sampleBooking 12 7 10000000 13600000 1 Confirmed 0),
      \<lparr> vehicles = [sampleVehicle 7 1000 Active],
        bookings = [(sampleBooking 11 7 10000000 13600000 1 Cancelled 0)
                      \<lparr>b_notes := Some ''Cancelled by user''\<rparr>,
                    sampleBooking 12 7 10000000 13600000 1 Confirmed 0] \<rparr>)"
  by (simp add: fleet2_eq eval_defs)

lemma fleet3_eq: "fleet3 = \<lparr> vehicles = [sampleVehicle 7 1000 Active],
        bookings = [(sampleBooking 11 7 10000000 13600000 1 Cancelled 0)
                      \<lparr>b_notes := Some ''Cancelled by user''\<rparr>,
                    sampleBooking 12 7 10000000 13600000 1 Confirmed 0] \<rparr>"
  by (simp add: fleet3_def run3)

lemma run4: "updateBookingStatus fleet3 0 11 Confirmed noAdditionalData
   = (Inr ((sampleBooking 11 7 10000000 13600000 1 Confirmed 0)
             \<lparr>b_notes := Some ''Cancelled by user''\<rparr>),
      \<lparr> vehicles = [sampleVehicle 7 1000 Active],
        bookings = [(sampleBooking 11 7 10000000 13600000 1 Confirmed 0)
                      \<lparr>b_notes := Some ''Cancelled by user''\<rparr>,
                    sampleBooking 12 7 10000000 13600000 1 Confirmed 0] \<rparr>)"
  by (simp add: fleet3_eq eval_defs)

lemma fleet4_eq: "fleet4 = \<lparr> vehicles = [sampleVehicle 7 1000 Active],
        bookings = [(sampleBooking 11 7 10000000 13600000 1 Confirmed 0)
                      \<lparr>b_notes := Some ''Cancelled by user''\<rparr>,
                    sampleBooking 12 7 10000000 13600000 1 Confirmed 0] \<rparr>"
  by (simp add: fleet4_def run4)

text \<open>
  Claim C3. \<open>createBooking\<close> fails with \<open>SlotUnavailable\<close> exactly when the input validations
  pass and the overlap query for the requested vehicle and the computed window returns a
  booking; a failure leaves the store as it was; a success appends exactly one booking, which
  is confirmed and carries the computed duration and the end time that lies this duration
  after the start.
\<close>

theorem createBooking_outcomes:
  "(fst (createBooking st now newId bd) = Inl SlotUnavailable
      \<longleftrightarrow> inputsValid st now bd \<and> requestedOverlaps st bd \<noteq> [])
   \<and> (\<forall>e. fst (createBooking st now newId bd) = Inl e
          \<longrightarrow> snd (createBooking st now newId bd) = st)
   \<and> (\<forall>b. fst (createBooking st now newId bd) = Inr b
          \<longrightarrow> bookings (snd (createBooking st now newId bd)) = bookings st @ [b]
              \<and> vehicles (snd (createBooking st now newId bd)) = vehicles st
              \<and> status b = Confirmed
              \<and> (\<exists>t d. newDate (bd_startTime bd) = Some t
                     \<and> calculateEstimatedDuration (bd_fromPincode bd) (bd_toPincode bd) = Inr d
                     \<and> startTime b = t
                     \<and> estimatedRideDurationHours b = d
                     \<and> endTime b = t + hoursToMs d
                     \<and> (of_int (endTime b) :: rat) = of_int t + d * 3600000))"
proof -
  obtain r st' where c: "createBooking st now newId bd = (r, st')"
    by (cases "createBooking st now newId bd")
  have fail: "\<forall>e. fst (createBooking st now newId bd) = Inl e
          \<longrightarrow> snd (createBooking st now newId bd) = st"
    using c createBooking_failure [of st now newId bd] by auto
  have succ: "bookings st' = bookings st @ [b] \<and> vehicles st' = vehicles st
              \<and> status b = Confirmed
              \<and> (\<exists>t d. newDate (bd_startTime bd) = Some t
                     \<and> calculateEstimatedDuration (bd_fromPincode bd) (bd_toPincode bd) = Inr d
                     \<and> startTime b = t
                     \<and> estimatedRideDurationHours b = d
                     \<and> endTime b = t + hoursToMs d
                     \<and> (of_int (endTime b) :: rat) = of_int t + d * 3600000)"
    if r: "r = Inr b" for b
  proof -
    from c r have cb: "createBooking st now newId bd = (Inr b, st')" by simp
    from createBooking_success [OF cb] obtain vid t d where
      s: "st' = st\<lparr>bookings := bookings st @ [b]\<rparr>" "status b = Confirmed"
         "newDate (bd_startTime bd) = Some t" "startTime b = t"
         "calculateEstimatedDuration (bd_fromPincode bd) (bd_toPincode bd) = Inr d"
         "estimatedRideDurationHours b = d" "calculateEndTime (Some t) d = Inr (endTime b)"
      by blast
    from calculateEndTime_hoursToMs [OF s(5), of t] s(7)
    have e1: "endTime b = t + hoursToMs d" by simp
    from calculateEndTime_exact [OF s(5), of t] s(7)
    have e2: "(of_int (endTime b) :: rat) = of_int t + d * 3600000" by auto
    from s e1 e2 show ?thesis by auto
  qed
  have slot: "r = Inl SlotUnavailable
      \<longleftrightarrow> inputsValid st now bd \<and> requestedOverlaps st bd \<noteq> []"
    using createBooking_SlotUnavailable [of st now newId bd] c by simp
  have fail': "\<forall>e. r = Inl e \<longrightarrow> st' = st"
    using fail c by simp
  show ?thesis
    unfolding c fst_conv snd_conv
    using slot fail' succ by blast
qed

theorem createBooking_outcomes_witness:
  "fst (createBooking fleet1 0 12 (request 11000000)) = Inl SlotUnavailable
   \<and> inputsValid fleet1 0 (request 11000000)
   \<and> requestedOverlaps fleet1 (request 11000000) \<noteq> []
   \<and> snd (createBooking fleet1 0 12 (request 11000000)) = fleet1
   \<and> fst (createBooking fleet0 0 11 (request 10000000))
       = Inr (sampleBooking 11 7 10000000 13600000 1 Confirmed 0)
   \<and> bookings (snd (createBooking fleet0 0 11 (request 10000000)))
       = bookings fleet0 @ [sampleBooking 11 7 10000000 13600000 1 Confirmed 0]"
  using createBooking_outcomes [of fleet1 0 12 "request 11000000"]
    createBooking_outcomes [of fleet0 0 11 "request 10000000"]
  by (simp add: run1 run1b)

text \<open>
  Claim C10. For valid six-digit pincode strings the estimated duration is exactly 0.5 or a
  whole number from 1 to 23, so at most 23; and a booking that \<open>createBooking\<close> persists ends at
  most 23 hours (82800000 ms) after it starts.
\<close>

theorem duration_at_most_23_hours:
  "(isValidPincode (JStr p) \<and> isValidPincode (JStr q) \<longrightarrow>
      (\<exists>d. calculateEstimatedDuration (JStr p) (JStr q) = Inr d
           \<and> (d = 1 / 2 \<or> (\<exists>k::int. 1 \<le> k \<and> k \<le> 23 \<and> d = of_int k))
           \<and> d \<le> 23))
   \<and> (\<forall>b. fst (createBooking st now newId bd) = Inr b
          \<longrightarrow> b \<in> set (bookings (snd (createBooking st now newId bd)))
              \<and> endTime b - startTime b \<le> 23 * 3600000)"
proof -
  have est: "\<exists>d. calculateEstimatedDuration (JStr p) (JStr q) = Inr d
           \<and> (d = 1 / 2 \<or> (\<exists>k::int. 1 \<le> k \<and> k \<le> 23 \<and> d = of_int k))
           \<and> d \<le> 23"
    if v: "isValidPincode (JStr p)" "isValidPincode (JStr q)"
  proof -
    from calculateEstimatedDuration_valid [OF v] obtain d where
      d: "calculateEstimatedDuration (JStr p) (JStr q) = Inr d" by blast
    note shape = duration_cases [OF d]
    then have "d \<le> 23" by auto
    with d shape show ?thesis by blast
  qed
  obtain r st' where c: "createBooking st now newId bd = (r, st')"
    by (cases "createBooking st now newId bd")
  have per: "b \<in> set (bookings st') \<and> endTime b - startTime b \<le> 23 * 3600000"
    if r: "r = Inr b" for b
  proof -
    from c r have cb: "createBooking st now newId bd = (Inr b, st')" by simp
    from createBooking_success [OF cb] obtain t d where
      s: "st' = st\<lparr>bookings := bookings st @ [b]\<rparr>" "startTime b = t"
         "calculateEstimatedDuration (bd_fromPincode bd) (bd_toPincode bd) = Inr d"
         "calculateEndTime (Some t) d = Inr (endTime b)"
      by blast
    from calculateEndTime_exact [OF s(3), of t] s(4)
    have "endTime b - t \<le> 23 * 3600000" by auto
    with s show ?thesis by simp
  qed
  have per': "\<forall>b. r = Inr b
      \<longrightarrow> b \<in> set (bookings st') \<and> endTime b - startTime b \<le> 23 * 3600000"
    using per by blast
  show ?thesis
    unfolding c fst_conv snd_conv
    using est per' by blast
qed

theorem duration_at_most_23_hours_witness:
  "(\<exists>d. calculateEstimatedDuration (JStr ''110001'') (JStr ''110024'') = Inr d
        \<and> (d = 1 / 2 \<or> (\<exists>k::int. 1 \<le> k \<and> k \<le> 23 \<and> d = of_int k)) \<and> d \<le> 23)
   \<and> calculateEstimatedDuration (JStr ''110001'') (JStr ''110024'') = Inr 23
   \<and> sampleBooking 11 7 10000000 13600000 1 Confirmed 0
        \<in> set (bookings (snd (createBooking fleet0 0 11 (request 10000000))))
   \<and> endTime (sampleBooking 11 7 10000000 13600000 1 Confirmed 0)
        - startTime (sampleBooking 11 7 10000000 13600000 1 Confirmed 0) \<le> 23 * 3600000"
proof -
  have v: "isValidPincode (JStr ''110001'') \<and> isValidPincode (JStr ''110024'')"
    by (simp add: isValidPincode_def isDigit_def)
  have e: "calculateEstimatedDuration (JStr ''110001'') (JStr ''110024'') = Inr 23"
    by (simp add: calculateEstimatedDuration_def isValidPincode_def isDigit_def parseInt_def
        decimal_def digitVal_def)
  from duration_at_most_23_hours [of "''110001''" "''110024''" fleet0 0 11 "request 10000000"]
    v e run1
  show ?thesis by simp
qed

subsection \<open>The invariant of the bookings\<close>

text \<open>Creating a booking keeps the invariant: the new interval meets no active interval of
  the vehicle, by the overlap query.\<close>

lemma createBooking_preserves_noDoubleBooking:
  assumes inv: "noDoubleBooking st"
  shows "noDoubleBooking (snd (createBooking st now newId bd))"
proof -
  obtain r st' where c: "createBooking st now newId bd = (r, st')"
    by (cases "createBooking st now newId bd")
  show ?thesis
  proof (cases r)
    case (Inl e)
    with c createBooking_failure [of st now newId bd e st'] inv show ?thesis by simp
  next
    case (Inr b)
    with c have cb: "createBooking st now newId bd = (Inr b, st')" by simp
    from createBooking_success [OF cb] obtain d where
      st': "st' = st\<lparr>bookings := bookings st @ [b]\<rparr>" and
      free: "findOverlappingBookings st (vehicleId b) (startTime b) (endTime b) None = []"
      by auto
    from free have nohit: "\<forall>x \<in> set (bookings st).
        vehicleId x = vehicleId b \<and> isActiveStatus (status x)
          \<longrightarrow> endTime b \<le> startTime x \<or> endTime x \<le> startTime b"
      by (auto simp add: findOverlappingBookings_def filter_empty_conv)
    have "noDoubleBooking st'"
      unfolding noDoubleBooking_def st'
    proof (intro ballI impI)
      fix x y
      assume x: "x \<in> set (bookings (st\<lparr>bookings := bookings st @ [b]\<rparr>))"
        and y: "y \<in> set (bookings (st\<lparr>bookings := bookings st @ [b]\<rparr>))"
        and h: "b_id x \<noteq> b_id y \<and> vehicleId x = vehicleId y
                \<and> isActiveStatus (status x) \<and> isActiveStatus (status y)"
      from x have x': "x \<in> set (bookings st) \<or> x = b" by auto
      from y have y': "y \<in> set (bookings st) \<or> y = b" by auto
      from x' y' show "{startTime x ..< endTime x} \<inter> {startTime y ..< endTime y} = {}"
      proof (elim disjE)
        assume "x \<in> set (bookings st)" "y \<in> set (bookings st)"
        with inv h show ?thesis unfolding noDoubleBooking_def by blast
      next
        assume "x \<in> set (bookings st)" "y = b"
        with nohit h have "endTime b \<le> startTime x \<or> endTime x \<le> startTime b" by auto
        with \<open>y = b\<close> show ?thesis by auto
      next
        assume "x = b" "y \<in> set (bookings st)"
        with nohit h have "endTime b \<le> startTime y \<or> endTime y \<le> startTime b" by auto
        with \<open>x = b\<close> show ?thesis by auto
      next
        assume "x = b" "y = b"
        with h show ?thesis by simp
      qed
    qed
    with c show ?thesis by simp
  qed
qed

text \<open>So do the updates to a status that is not active, cancelling and deleting.\<close>

lemma set_updateFirst:
  "set (updateFirst p f xs) \<subseteq> set xs \<union> f ` {x \<in> set xs. p x}"
  by (induction xs) auto

lemma set_removeFirst: "set (removeFirst p xs) \<subseteq> set xs"
  by (induction xs) auto

lemma updateBookingStatus_preserves_noDoubleBooking:
  assumes inv: "noDoubleBooking st" and inactive: "\<not> isActiveStatus newStatus"
  shows "noDoubleBooking (snd (updateBookingStatus st now bookingId newStatus extra))"
proof -
  define f :: "booking \<Rightarrow> booking" where "f = (\<lambda>b. b\<lparr> status := newStatus,
      b_notes := orKeep (ad_notes extra) (b_notes b),
      actualStartTime := orKeep (if newStatus = InProgress \<and> ad_actualStartTime extra = None
                                 then Some now else ad_actualStartTime extra) (actualStartTime b),
      actualEndTime := orKeep (if newStatus = Completed \<and> ad_actualEndTime extra = None
                               then Some now else ad_actualEndTime extra) (actualEndTime b),
      updatedAt := now \<rparr>)"
  have cases: "snd (updateBookingStatus st now bookingId newStatus extra) = st
      \<or> snd (updateBookingStatus st now bookingId newStatus extra)
          = st\<lparr>bookings := updateFirst (\<lambda>x. b_id x = bookingId) f (bookings st)\<rparr>"
    by (auto simp add: updateBookingStatus_def Let_def f_def split: option.splits)
  have fst: "\<not> isActiveStatus (status (f z))" for z
    using inactive by (simp add: f_def)
  have "noDoubleBooking (st\<lparr>bookings := updateFirst (\<lambda>x. b_id x = bookingId) f (bookings st)\<rparr>)"
    unfolding noDoubleBooking_def
  proof (intro ballI impI)
    fix x y
    let ?bs = "bookings (st\<lparr>bookings := updateFirst (\<lambda>x. b_id x = bookingId) f (bookings st)\<rparr>)"
    assume x: "x \<in> set ?bs" and y: "y \<in> set ?bs"
      and h: "b_id x \<noteq> b_id y \<and> vehicleId x = vehicleId y
              \<and> isActiveStatus (status x) \<and> isActiveStatus (status y)"
    from x set_updateFirst [of "\<lambda>x. b_id x = bookingId" f "bookings st"]
    have "x \<in> set (bookings st) \<or> (\<exists>z. x = f z)" by auto
    with h fst have x': "x \<in> set (bookings st)" by auto
    from y set_updateFirst [of "\<lambda>x. b_id x = bookingId" f "bookings st"]
    have "y \<in> set (bookings st) \<or> (\<exists>z. y = f z)" by auto
    with h fst have y': "y \<in> set (bookings st)" by auto
    from inv x' y' h show "{startTime x ..< endTime x} \<inter> {startTime y ..< endTime y} = {}"
      unfolding noDoubleBooking_def by blast
  qed
  with cases inv show ?thesis by auto
qed

lemma cancelBooking_preserves_noDoubleBooking:
  assumes inv: "noDoubleBooking st"
  shows "noDoubleBooking (snd (cancelBooking st now bookingId reason))"
proof -
  have "snd (cancelBooking st now bookingId reason) = st
     \<or> (\<exists>extra. snd (cancelBooking st now bookingId reason)
           = snd (updateBookingStatus st now bookingId Cancelled extra))"
    by (auto simp add: cancelBooking_def Let_def split: option.splits)
  with inv updateBookingStatus_preserves_noDoubleBooking [OF inv, of Cancelled now bookingId]
  show ?thesis by (auto simp add: isActiveStatus_def)
qed

lemma deleteBooking_preserves_noDoubleBooking:
  assumes inv: "noDoubleBooking st"
  shows "noDoubleBooking (snd (deleteBooking st bookingId))"
proof -
  have "set (bookings (snd (deleteBooking st bookingId))) \<subseteq> set (bookings st)"
    using set_removeFirst [of "\<lambda>x. b_id x = bookingId" "bookings st"]
    by (auto simp add: deleteBooking_def split: option.splits)
  with inv show ?thesis unfolding noDoubleBooking_def by blast
qed

text \<open>
  Claim C1. In every state reachable by the operations, the confirmed and in-progress
  bookings of a vehicle are pairwise disjoint. The run below reaches a state where they are
  not: a booking is created, cancelled, a second booking takes the same window, and
  \<open>updateBookingStatus\<close> sets the first back to confirmed without an overlap query.
\<close>

theorem double_booking_reachable:
  "noDoubleBooking fleet0
   \<and> fst (createBooking fleet0 0 11 (request 10000000))
       = Inr (sampleBooking 11 7 10000000 13600000 1 Confirmed 0)
   \<and> fst (cancelBooking fleet1 0 11 [])
       = Inr ((sampleBooking 11 7 10000000 13600000 1 Cancelled 0)
                \<lparr>b_notes := Some ''Cancelled by user''\<rparr>)
   \<and> fst (createBooking fleet2 0 12 (request 10000000))
       = Inr (sampleBooking 12 7 10000000 13600000 1 Confirmed 0)
   \<and> fst (updateBookingStatus fleet3 0 11 Confirmed noAdditionalData)
       = Inr ((sampleBooking 11 7 10000000 13600000 1 Confirmed 0)
                \<lparr>b_notes := Some ''Cancelled by user''\<rparr>)
   \<and> bookings fleet4
       = [(sampleBooking 11 7 10000000 13600000 1 Confirmed 0)
            \<lparr>b_notes := Some ''Cancelled by user''\<rparr>,
          sampleBooking 12 7 10000000 13600000 1 Confirmed 0]
   \<and> \<not> noDoubleBooking fleet4"
proof -
  have a: "noDoubleBooking fleet0" by (simp add: noDoubleBooking_def fleet0_def)
  have b: "\<not> noDoubleBooking fleet4"
    by (simp add: noDoubleBooking_def fleet4_eq sampleBooking_def isActiveStatus_def)
  from a b show ?thesis by (simp add: run1 run2 run3 run4 fleet4_eq)
qed

theorem double_booking_reachable_witness:
  "\<not> noDoubleBooking fleet4 \<and> noDoubleBooking fleet0"
  using double_booking_reachable by simp

subsection \<open>Updating the status of a booking\<close>

lemma find_Some_holds: "find p xs = Some x \<Longrightarrow> p x \<and> x \<in> set xs"
  by (induction xs) (auto split: if_splits)

lemma find_updateFirst_same:
  assumes "\<And>x. key (f x) = key x" "find (\<lambda>x. key x = i) xs = Some b"
  shows "find (\<lambda>x. key x = i) (updateFirst (\<lambda>x. key x = i) f xs) = Some (f b)"
  using assms by (induction xs) (auto split: if_splits)

lemma find_updateFirst_other:
  assumes "\<And>x. key (f x) = key x" "j \<noteq> i"
  shows "find (\<lambda>x. key x = j) (updateFirst (\<lambda>x. key x = i) f xs) = find (\<lambda>x. key x = j) xs"
  using assms by (induction xs) auto

lemma map_key_updateFirst:
  assumes "\<And>x. key (f x) = key x"
  shows "map key (updateFirst p f xs) = map key xs"
  using assms by (induction xs) auto

lemma length_updateFirst [simp]: "length (updateFirst p f xs) = length xs"
  by (induction xs) auto

text \<open>
  Claim C7, as the code has it. For an existing booking (and extra notes of at most 500
  characters) \<open>updateBookingStatus\<close> sets the status; it sets \<open>actualStartTime\<close> to the value
  the caller supplies, or else, on a transition to in-progress, to the current time, whether
  the stored booking has one already or not, and keeps the stored value otherwise; likewise
  \<open>actualEndTime\<close> on a transition to completed; it replaces the notes when the caller
  supplies some and stamps \<open>updatedAt\<close>. All other fields of the booking, the other bookings
  and the vehicles are unchanged.
\<close>

theorem updateBookingStatus_effect:
  "Booking_findById st i = Some b
   \<and> (case ad_notes extra of None \<Rightarrow> True | Some n \<Rightarrow> length n \<le> 500) \<longrightarrow>
   (\<exists>b'. fst (updateBookingStatus st now i s extra) = Inr b'
      \<and> status b' = s
      \<and> actualStartTime b'
          = (case ad_actualStartTime extra of
               Some t \<Rightarrow> Some t
             | None \<Rightarrow> if s = InProgress then Some now else actualStartTime b)
      \<and> actualEndTime b'
          = (case ad_actualEndTime extra of
               Some t \<Rightarrow> Some t
             | None \<Rightarrow> if s = Completed then Some now else actualEndTime b)
      \<and> b_notes b' = (case ad_notes extra of Some n \<Rightarrow> Some n | None \<Rightarrow> b_notes b)
      \<and> updatedAt b' = now
      \<and> b' = b\<lparr> status := status b', b_notes := b_notes b',
                 actualStartTime := actualStartTime b', actualEndTime := actualEndTime b',
                 updatedAt := updatedAt b' \<rparr>
      \<and> Booking_findById (snd (updateBookingStatus st now i s extra)) i = Some b'
      \<and> (\<forall>j. j \<noteq> i \<longrightarrow>
            Booking_findById (snd (updateBookingStatus st now i s extra)) j
              = Booking_findById st j)
      \<and> map b_id (bookings (snd (updateBookingStatus st now i s extra)))
          = map b_id (bookings st)
      \<and> vehicles (snd (updateBookingStatus st now i s extra)) = vehicles st)"
proof (intro impI, elim conjE)
  assume found: "Booking_findById st i = Some b"
    and ok: "case ad_notes extra of None \<Rightarrow> True | Some n \<Rightarrow> length n \<le> 500"
  define f :: "booking \<Rightarrow> booking" where "f = (\<lambda>b. b\<lparr> status := s,
      b_notes := orKeep (ad_notes extra) (b_notes b),
      actualStartTime := orKeep (if s = InProgress \<and> ad_actualStartTime extra = None
                                 then Some now else ad_actualStartTime extra) (actualStartTime b),
      actualEndTime := orKeep (if s = Completed \<and> ad_actualEndTime extra = None
                               then Some now else ad_actualEndTime extra) (actualEndTime b),
      updatedAt := now \<rparr>)"
  have key: "b_id (f x) = b_id x" for x by (simp add: f_def)
  from ok have nolong: "\<not> (case ad_notes extra of None \<Rightarrow> False | Some n \<Rightarrow> 500 < length n)"
    by (auto split: option.splits)
  have r: "updateBookingStatus st now i s extra
      = (Inr (f b), st\<lparr>bookings := updateFirst (\<lambda>x. b_id x = i) f (bookings st)\<rparr>)"
    using found nolong by (simp add: updateBookingStatus_def Let_def f_def)
  have fields: "status (f b) = s"
      "actualStartTime (f b) = (case ad_actualStartTime extra of
               Some t \<Rightarrow> Some t
             | None \<Rightarrow> if s = InProgress then Some now else actualStartTime b)"
      "actualEndTime (f b) = (case ad_actualEndTime extra of
               Some t \<Rightarrow> Some t
             | None \<Rightarrow> if s = Completed then Some now else actualEndTime b)"
      "b_notes (f b) = (case ad_notes extra of Some n \<Rightarrow> Some n | None \<Rightarrow> b_notes b)"
      "updatedAt (f b) = now"
    by (simp_all add: f_def orKeep_def split: option.splits)
  have frame: "f b = b\<lparr> status := status (f b), b_notes := b_notes (f b),
                 actualStartTime := actualStartTime (f b), actualEndTime := actualEndTime (f b),
                 updatedAt := updatedAt (f b) \<rparr>"
    by (simp add: f_def)
  have same: "Booking_findById (st\<lparr>bookings := updateFirst (\<lambda>x. b_id x = i) f (bookings st)\<rparr>) i
      = Some (f b)"
    using found find_updateFirst_same [of b_id f i "bookings st" b, OF key]
    by (simp add: Booking_findById_def)
  have other: "\<forall>j. j \<noteq> i \<longrightarrow>
      Booking_findById (st\<lparr>bookings := updateFirst (\<lambda>x. b_id x = i) f (bookings st)\<rparr>) j
        = Booking_findById st j"
    using find_updateFirst_other [of b_id f _ i "bookings st", OF key]
    by (simp add: Booking_findById_def)
  have ids: "map b_id (updateFirst (\<lambda>x. b_id x = i) f (bookings st)) = map b_id (bookings st)"
    by (rule map_key_updateFirst) (rule key)
  show "\<exists>b'. fst (updateBookingStatus st now i s extra) = Inr b'
      \<and> status b' = s
      \<and> actualStartTime b'
          = (case ad_actualStartTime extra of
               Some t \<Rightarrow> Some t
             | None \<Rightarrow> if s = InProgress then Some now else actualStartTime b)
      \<and> actualEndTime b'
          = (case ad_actualEndTime extra of
               Some t \<Rightarrow> Some t
             | None \<Rightarrow> if s = Completed then Some now else actualEndTime b)
      \<and> b_notes b' = (case ad_notes extra of Some n \<Rightarrow> Some n | None \<Rightarrow> b_notes b)
      \<and> updatedAt b' = now
      \<and> b' = b\<lparr> status := status b', b_notes := b_notes b',
                 actualStartTime := actualStartTime b', actualEndTime := actualEndTime b',
                 updatedAt := updatedAt b' \<rparr>
      \<and> Booking_findById (snd (updateBookingStatus st now i s extra)) i = Some b'
      \<and> (\<forall>j. j \<noteq> i \<longrightarrow>
            Booking_findById (snd (updateBookingStatus st now i s extra)) j
              = Booking_findById st j)
      \<and> map b_id (bookings (snd (updateBookingStatus st now i s extra)))
          = map b_id (bookings st)
      \<and> vehicles (snd (updateBookingStatus st now i s extra)) = vehicles st"
    unfolding r fst_conv snd_conv
    apply (rule exI [of _ "f b"])
    using fields frame same other ids by simp
qed

theorem updateBookingStatus_effect_witness:
  "(\<exists>b'. fst (updateBookingStatus startedStore 9 21 InProgress noAdditionalData) = Inr b'
        \<and> status b' = InProgress \<and> actualStartTime b' = Some 9 \<and> updatedAt b' = 9
        \<and> startTime b' = 100 \<and> endTime b' = 200 \<and> b_notes b' = None)
   \<and> Booking_findById (snd (updateBookingStatus startedStore 9 21 InProgress noAdditionalData)) 22
       = Some (sampleBooking 22 7 300 400 1 Confirmed 0)"
proof -
  let ?B = "(sampleBooking 21 7 100 200 1 InProgress 0)\<lparr>actualStartTime := Some 5\<rparr>"
  have pre: "Booking_findById startedStore 21 = Some ?B
     \<and> (case ad_notes noAdditionalData of None \<Rightarrow> True | Some n \<Rightarrow> length n \<le> 500)"
    by (simp add: startedStore_def Booking_findById_def sampleBooking_def noAdditionalData_def)
  from updateBookingStatus_effect [of startedStore 21 ?B noAdditionalData 9 InProgress,
      THEN mp, OF pre]
  obtain b' where
    b': "fst (updateBookingStatus startedStore 9 21 InProgress noAdditionalData) = Inr b'"
      "status b' = InProgress"
      "actualStartTime b'
         = (case ad_actualStartTime noAdditionalData of
              Some t \<Rightarrow> Some t
            | None \<Rightarrow> if InProgress = InProgress then Some 9 else actualStartTime ?B)"
      "b_notes b' = (case ad_notes noAdditionalData of Some n \<Rightarrow> Some n | None \<Rightarrow> b_notes ?B)"
      "updatedAt b' = 9"
      "b' = ?B\<lparr> status := status b', b_notes := b_notes b',
                 actualStartTime := actualStartTime b', actualEndTime := actualEndTime b',
                 updatedAt := updatedAt b' \<rparr>"
    and other: "\<forall>j. j \<noteq> 21 \<longrightarrow>
            Booking_findById (snd (updateBookingStatus startedStore 9 21 InProgress
                                     noAdditionalData)) j
              = Booking_findById startedStore j"
    by blast
  from arg_cong [OF b'(6), of startTime] have "startTime b' = startTime ?B" by simp
  moreover from arg_cong [OF b'(6), of endTime] have "endTime b' = endTime ?B" by simp
  ultimately have times: "startTime b' = 100" "endTime b' = 200"
    by (simp_all add: sampleBooking_def)
  from b'(3) have ast: "actualStartTime b' = Some 9" by (simp add: noAdditionalData_def)
  from b'(4) have nts: "b_notes b' = None" by (simp add: noAdditionalData_def sampleBooking_def)
  from other have "Booking_findById (snd (updateBookingStatus startedStore 9 21 InProgress
                                     noAdditionalData)) 22 = Booking_findById startedStore 22"
    by simp
  also have "\<dots> = Some (sampleBooking 22 7 300 400 1 Confirmed 0)"
    by (simp add: startedStore_def Booking_findById_def sampleBooking_def)
  finally show ?thesis using b'(1,2,5) times ast nts by blast
qed

text \<open>
  Claim C7 as stated fails: a repeated transition to in-progress does not leave a previously
  set \<open>actualStartTime\<close> unchanged. The guard reads the update data, not the stored
  booking.
\<close>

theorem repeated_start_overwrites_actualStartTime:
  "\<not> (\<forall>st now i b b'.
        Booking_findById st i = Some b \<and> actualStartTime b \<noteq> None
        \<and> fst (updateBookingStatus st now i InProgress noAdditionalData) = Inr b'
        \<longrightarrow> actualStartTime b' = actualStartTime b)"
proof
  assume a: "\<forall>st now i b b'.
        Booking_findById st i = Some b \<and> actualStartTime b \<noteq> None
        \<and> fst (updateBookingStatus st now i InProgress noAdditionalData) = Inr b'
        \<longrightarrow> actualStartTime b' = actualStartTime b"
  have 1: "Booking_findById startedStore 21
      = Some ((sampleBooking 21 7 100 200 1 InProgress 0)\<lparr>actualStartTime := Some 5\<rparr>)"
    by (simp add: startedStore_def Booking_findById_def sampleBooking_def)
  have 2: "fst (updateBookingStatus startedStore 9 21 InProgress noAdditionalData)
     = Inr ((sampleBooking 21 7 100 200 1 InProgress 0)
              \<lparr>actualStartTime := Some 9, updatedAt := 9\<rparr>)"
    by (simp add: startedStore_def eval_defs)
  from a [rule_format, of startedStore 21 _ 9 _] 1 2
  have "actualStartTime ((sampleBooking 21 7 100 200 1 InProgress 0)
              \<lparr>actualStartTime := Some 9, updatedAt := 9\<rparr>)
        = actualStartTime ((sampleBooking 21 7 100 200 1 InProgress 0)\<lparr>actualStartTime := Some 5\<rparr>)"
    by simp
  then show False by simp
qed

subsection \<open>Retiring a vehicle\<close>

text \<open>
  Claim C8. \<open>deleteVehicle\<close> fails with \<open>HasActiveBookings\<close> exactly when some booking of the
  vehicle is confirmed or in progress; when there is none and the vehicle exists, it returns
  the vehicle with the status retired, which is then what the store holds; and whatever the
  outcome, the store keeps the same vehicle documents (by id, in order) and the same
  bookings.
\<close>

theorem deleteVehicle_soft:
  "(fst (deleteVehicle st now vid) = Inl HasActiveBookings
      \<longleftrightarrow> (\<exists>b \<in> set (bookings st).
             vehicleId b = vid \<and> (status b = Confirmed \<or> status b = InProgress)))
   \<and> (\<forall>v. \<not> (\<exists>b \<in> set (bookings st).
                 vehicleId b = vid \<and> (status b = Confirmed \<or> status b = InProgress))
            \<and> Vehicle_findById st vid = Some v
          \<longrightarrow> fst (deleteVehicle st now vid) = Inr (v\<lparr>v_status := Retired, v_updatedAt := now\<rparr>)
              \<and> Vehicle_findById (snd (deleteVehicle st now vid)) vid
                  = Some (v\<lparr>v_status := Retired, v_updatedAt := now\<rparr>))
   \<and> map v_id (vehicles (snd (deleteVehicle st now vid))) = map v_id (vehicles st)
   \<and> bookings (snd (deleteVehicle st now vid)) = bookings st"
proof -
  let ?active = "filter (\<lambda>b. vehicleId b = vid \<and> (status b = Confirmed \<or> status b = InProgress))
                   (bookings st)"
  let ?f = "\<lambda>v. v\<lparr>v_status := Retired, v_updatedAt := now\<rparr>"
  have key: "v_id (?f x) = v_id x" for x :: vehicle by simp
  have act: "(0 < length ?active)
      \<longleftrightarrow> (\<exists>b \<in> set (bookings st).
             vehicleId b = vid \<and> (status b = Confirmed \<or> status b = InProgress))"
    by (auto simp add: filter_empty_conv)
  have iff: "fst (deleteVehicle st now vid) = Inl HasActiveBookings
      \<longleftrightarrow> (\<exists>b \<in> set (bookings st).
             vehicleId b = vid \<and> (status b = Confirmed \<or> status b = InProgress))"
    unfolding act [symmetric]
    by (simp add: deleteVehicle_def Let_def split: option.splits)
  have retire: "fst (deleteVehicle st now vid) = Inr (?f v)
              \<and> Vehicle_findById (snd (deleteVehicle st now vid)) vid = Some (?f v)"
    if no: "\<not> (\<exists>b \<in> set (bookings st).
                 vehicleId b = vid \<and> (status b = Confirmed \<or> status b = InProgress))"
      and found: "Vehicle_findById st vid = Some v" for v
  proof -
    from no act have "\<not> 0 < length ?active" by simp
    with found have r: "deleteVehicle st now vid
        = (Inr (?f v), st\<lparr>vehicles := updateFirst (\<lambda>x. v_id x = vid) ?f (vehicles st)\<rparr>)"
      by (simp add: deleteVehicle_def Let_def)
    from found find_updateFirst_same [of v_id ?f vid "vehicles st" v, OF key]
    show ?thesis unfolding r by (simp add: Vehicle_findById_def)
  qed
  have ids: "map v_id (vehicles (snd (deleteVehicle st now vid))) = map v_id (vehicles st)"
    using map_key_updateFirst [of v_id ?f "\<lambda>x. v_id x = vid" "vehicles st", OF key]
    by (simp add: deleteVehicle_def Let_def split: option.splits)
  have bks: "bookings (snd (deleteVehicle st now vid)) = bookings st"
    by (simp add: deleteVehicle_def Let_def split: option.splits)
  from iff retire ids bks show ?thesis by blast
qed

theorem deleteVehicle_soft_witness:
  "fst (deleteVehicle retireStore 50 7) = Inl HasActiveBookings
   \<and> fst (deleteVehicle retireStore 50 8)
       = Inr ((sampleVehicle 8 2000 Retired)\<lparr>v_updatedAt := 50\<rparr>)
   \<and> map v_id (vehicles (snd (deleteVehicle retireStore 50 8))) = [7, 8]"
proof -
  have a: "\<exists>b \<in> set (bookings retireStore).
             vehicleId b = 7 \<and> (status b = Confirmed \<or> status b = InProgress)"
    by (simp add: retireStore_def sampleBooking_def)
  have b: "\<not> (\<exists>b \<in> set (bookings retireStore).
                 vehicleId b = 8 \<and> (status b = Confirmed \<or> status b = InProgress))
           \<and> Vehicle_findById retireStore 8 = Some (sampleVehicle 8 2000 Active)"
    by (simp add: retireStore_def sampleBooking_def Vehicle_findById_def sampleVehicle_def)
  have c: "map v_id (vehicles retireStore) = [7, 8]"
    by (simp add: retireStore_def sampleVehicle_def)
  have d: "(sampleVehicle 8 2000 Active)\<lparr>v_status := Retired, v_updatedAt := 50\<rparr>
      = (sampleVehicle 8 2000 Retired)\<lparr>v_updatedAt := 50\<rparr>"
    by (simp add: sampleVehicle_def)
  from deleteVehicle_soft [of retireStore 50 7] a
  have 1: "fst (deleteVehicle retireStore 50 7) = Inl HasActiveBookings" by blast
  from deleteVehicle_soft [of retireStore 50 8] b
  have 2: "fst (deleteVehicle retireStore 50 8)
      = Inr ((sampleVehicle 8 2000 Active)\<lparr>v_status := Retired, v_updatedAt := 50\<rparr>)"
    by blast
  from deleteVehicle_soft [of retireStore 50 8] c
  have 3: "map v_id (vehicles (snd (deleteVehicle retireStore 50 8))) = [7, 8]" by simp
  from 1 2 3 d show ?thesis by simp
qed

subsection \<open>Utilization of a vehicle\<close>

lemma foldl_plus_sum_list:
  "foldl (\<lambda>sum b. sum + f b) a xs = (a :: rat) + sum_list (map f xs)"
  by (induction xs arbitrary: a) (simp_all add: add.assoc)

text \<open>
  Claim C9. For an existing vehicle and any creation-time range, the statistics report as
  \<open>totalHoursBooked\<close> the sum of the estimated durations of all fetched bookings, whatever
  their status, and as \<open>averageRideDuration\<close> that sum divided by their number, or 0 when
  none is fetched.
\<close>

theorem getVehicleUtilization_totals:
  "Vehicle_findById st vid = Some v \<longrightarrow>
     (\<exists>stats. getVehicleUtilization st vid dr = Inr stats
        \<and> totalBookings stats = length (fetchedBookings st vid dr)
        \<and> totalHoursBooked stats
            = sum_list (map estimatedRideDurationHours (fetchedBookings st vid dr))
        \<and> averageRideDuration stats
            = (if fetchedBookings st vid dr = [] then 0
               else sum_list (map estimatedRideDurationHours (fetchedBookings st vid dr))
                      / of_nat (length (fetchedBookings st vid dr)))
        \<and> cancelledBookings stats
            = length (filter (\<lambda>b. status b = Cancelled) (fetchedBookings st vid dr)))"
proof
  assume found: "Vehicle_findById st vid = Some v"
  then have "v_id v = vid"
    using find_Some_holds [of "\<lambda>v. v_id v = vid" "vehicles st" v]
    by (simp add: Vehicle_findById_def)
  with found show "\<exists>stats. getVehicleUtilization st vid dr = Inr stats
        \<and> totalBookings stats = length (fetchedBookings st vid dr)
        \<and> totalHoursBooked stats
            = sum_list (map estimatedRideDurationHours (fetchedBookings st vid dr))
        \<and> averageRideDuration stats
            = (if fetchedBookings st vid dr = [] then 0
               else sum_list (map estimatedRideDurationHours (fetchedBookings st vid dr))
                      / of_nat (length (fetchedBookings st vid dr)))
        \<and> cancelledBookings stats
            = length (filter (\<lambda>b. status b = Cancelled) (fetchedBookings st vid dr))"
    by (simp add: getVehicleUtilization_def getVehicleById_def fetchedBookings_def Let_def
        foldl_plus_sum_list)
qed

theorem getVehicleUtilization_totals_witness:
  "(\<exists>stats. getVehicleUtilization utilizationStore 7 \<lparr>startDate = None, endDate = Some 50\<rparr>
              = Inr stats
        \<and> totalBookings stats = 2 \<and> cancelledBookings stats = 1
        \<and> totalHoursBooked stats = 6 \<and> averageRideDuration stats = 3)
   \<and> fetchedBookings utilizationStore 7 \<lparr>startDate = None, endDate = Some 50\<rparr>
       = [sampleBooking 41 7 100 200 2 Confirmed 10, sampleBooking 42 7 300 400 4 Cancelled 20]"
proof -
  have v: "Vehicle_findById utilizationStore 7 = Some (sampleVehicle 7 1000 Active)"
    by (simp add: utilizationStore_def Vehicle_findById_def sampleVehicle_def)
  have f: "fetchedBookings utilizationStore 7 \<lparr>startDate = None, endDate = Some 50\<rparr>
       = [sampleBooking 41 7 100 200 2 Confirmed 10, sampleBooking 42 7 300 400 4 Cancelled 20]"
    by (simp add: fetchedBookings_def utilizationStore_def sampleBooking_def)
  from getVehicleUtilization_totals [of utilizationStore 7 "sampleVehicle 7 1000 Active"
      "\<lparr>startDate = None, endDate = Some 50\<rparr>", THEN mp, OF v]
  have "\<exists>stats. getVehicleUtilization utilizationStore 7 \<lparr>startDate = None, endDate = Some 50\<rparr>
              = Inr stats
        \<and> totalBookings stats = 2 \<and> cancelledBookings stats = 1
        \<and> totalHoursBooked stats = 6 \<and> averageRideDuration stats = 3"
    unfolding f by (auto simp add: sampleBooking_def)
  with f show ?thesis by simp
qed

subsection \<open>The cost of a route\<close>

lemma floor_numeral_divide:
  "\<lfloor>numeral a / numeral b :: rat\<rfloor> = numeral a div numeral b"
  using floor_divide_of_int_eq [of "numeral a" "numeral b", where ?'a = rat] by simp

lemma toDouble_eval:
  assumes "1 \<le> x" and "int (bitLength (nat \<lfloor>x\<rfloor>)) - 1 = e" and "e \<le> 52"
    and "roundHalfEven (x * 2 ^ nat (52 - e)) = m"
  shows "toDouble x = of_int m / 2 ^ nat (52 - e)"
proof -
  from assms(1) have pos: "0 < x" "x \<noteq> 0" "\<bar>x\<bar> = x" "sgn x = 1" by simp_all
  from assms(1,2) have "binaryExponent x = e" by (simp add: binaryExponent_def)
  with assms(3) have u: "ulp x = 1 / 2 ^ nat (52 - e)"
    by (cases "e = 52") (simp_all add: ulp_def)
  show ?thesis
    unfolding toDouble_def pos u using pos(2) assms(4) by simp
qed

lemma bitLength_le: "n < 2 ^ k \<Longrightarrow> bitLength n \<le> k"
proof (induction k arbitrary: n)
  case 0
  then show ?case by (simp add: bitLength.simps)
next
  case (Suc k)
  show ?case
  proof (cases "n = 0")
    case True
    then show ?thesis by (simp add: bitLength.simps)
  next
    case False
    from Suc.prems have "n div 2 < 2 ^ k" by simp
    from Suc.IH [OF this] False show ?thesis by (subst bitLength.simps) simp
  qed
qed

lemma roundHalfEven_of_int [simp]: "roundHalfEven (of_int n) = n"
  by (simp add: roundHalfEven_def)

text \<open>A whole number below \<open>2 ^ 53\<close> is a double.\<close>

lemma toDouble_of_int:
  assumes "1 \<le> n" "n < 2 ^ 53"
  shows "toDouble (of_int n) = of_int n"
proof -
  define e where "e = int (bitLength (nat n)) - 1"
  from assms have "nat n < 2 ^ 53" by (simp add: nat_less_iff)
  from bitLength_le [OF this] have e: "e \<le> 52" by (simp add: e_def)
  have "(of_int n :: rat) * 2 ^ nat (52 - e) = of_int (n * 2 ^ nat (52 - e))" by simp
  then have r: "roundHalfEven (of_int n * 2 ^ nat (52 - e)) = n * 2 ^ nat (52 - e)"
    by (simp only: roundHalfEven_of_int)
  from assms(1) have "(1 :: rat) \<le> of_int n" by simp
  from toDouble_eval [OF this _ e r] show ?thesis by (simp add: e_def)
qed

lemmas eval_double = floor_numeral_divide bitLength.simps roundHalfEven_def Let_def

lemma toDouble_1001: "toDouble (1001 / 1000) = 2254051613498933 / 2251799813685248"
  using toDouble_eval [of "1001 / 1000" 0 4508103226997866] by (simp add: eval_double)

lemma toDouble_1500: "toDouble 1500 = 1500"
  using toDouble_of_int [of 1500] by simp

lemma toDouble_1500_1001:
  "toDouble (1500 * (2254051613498933 / 2251799813685248))
     = 6603666836422655 / 4398046511104"
  using toDouble_eval [of "1500 * (2254051613498933 / 2251799813685248)" 10 6603666836422655]
  by (simp add: eval_double)

lemma toDouble_2001:
  "toDouble (500 + 6603666836422655 / 4398046511104) = 8802690091974655 / 4398046511104"
  using toDouble_eval [of "500 + 6603666836422655 / 4398046511104" 10 8802690091974655]
  by (simp add: eval_double)

lemma Math_round_2001: "Math_round (8802690091974655 / 4398046511104) = 2001"
  by (simp add: Math_round_def floor_numeral_divide)

lemma Math_round_duration:
  assumes "calculateEstimatedDuration f t = Inr d"
  shows "(of_int (Math_round (d * 50)) :: rat) = d * 50"
proof -
  from duration_cases [OF assms] show ?thesis
  proof
    assume d: "d = 1 / 2"
    have e: "d * 50 + 1 / 2 = (51 / 2 :: rat)" by (simp add: d)
    have "\<lfloor>51 / 2 :: rat\<rfloor> = 25" by (simp add: floor_numeral_divide)
    with e have m: "Math_round (d * 50) = 25" by (simp only: Math_round_def)
    have dm: "d * 50 = 25" by (simp add: d)
    have a: "(of_int (Math_round (d * 50)) :: rat) = 25" unfolding m by simp
    from a dm [symmetric] show ?thesis by (rule trans)
  next
    assume "\<exists>k::int. 1 \<le> k \<and> k \<le> 23 \<and> d = of_int k"
    then obtain k :: int where d: "d = of_int k" by blast
    have "\<lfloor>d * 50 + 1 / 2\<rfloor> = k * 50"
      by (rule floor_unique) (simp_all add: d)
    then show ?thesis by (simp add: Math_round_def d)
  qed
qed

text \<open>The distance times the rate per kilometre is a whole number, hence a double.\<close>

lemma toDouble_distance_rate:
  assumes "calculateEstimatedDuration f t = Inr d"
  shows "toDouble (of_int (Math_round (d * 50)) * 10) = d * 500"
proof -
  from duration_cases [OF assms] obtain n :: int where
    n: "1 \<le> n" "n < 2 ^ 53" "d * 500 = of_int n"
  proof
    assume "d = 1 / 2"
    then have "(1::int) \<le> 250" "(250::int) < 2 ^ 53" "d * 500 = of_int 250" by simp_all
    then show ?thesis by (rule that)
  next
    assume "\<exists>k::int. 1 \<le> k \<and> k \<le> 23 \<and> d = of_int k"
    then obtain k :: int where k: "1 \<le> k" "k \<le> 23" and d: "d = of_int k" by blast
    from k have "1 \<le> k * 500" "k * 500 < 2 ^ 53" by simp_all
    moreover have "d * 500 = of_int (k * 500)" by (simp add: d)
    ultimately show ?thesis by (rule that)
  qed
  have "of_int (Math_round (d * 50)) * 10 = d * 500"
    by (simp add: Math_round_duration [OF assms])
  with toDouble_of_int [OF n(1,2)] n(3) show ?thesis by simp
qed

lemma getRouteInfo_explicit:
  assumes "calculateEstimatedDuration f t = Inr d"
  shows "getRouteInfo f t cap
    = Inr \<lparr> ri_fromPincode = f, ri_toPincode = t, estimatedDurationHours = d,
            estimatedDistanceKm = Math_round (d * 50),
            estimatedCost = Math_round (toDouble (500
                              + toDouble (d * 500 * max 1 (toDouble (cap / 1000))))),
            route = ToString f @ [CHR '' '', CHR 0xE2, CHR 0x86, CHR 0x92, CHR '' '']
                      @ ToString t \<rparr>"
  using assms toDouble_distance_rate [OF assms]
  by (simp add: getRouteInfo_def calculateEstimatedDistance_def Let_def)

subsection \<open>Searching for available vehicles\<close>

lemma getRouteInfo_valid:
  assumes "isValidPincode f" "isValidPincode t"
  shows "\<exists>info. getRouteInfo f t cap = Inr info"
proof -
  from calculateEstimatedDuration_valid [OF assms] obtain d where
    "calculateEstimatedDuration f t = Inr d" by blast
  then show ?thesis
    by (simp add: getRouteInfo_def calculateEstimatedDistance_def Let_def)
qed

lemma availabilityLoop_spec:
  assumes route: "\<And>cap. \<exists>info. getRouteInfo f t cap = Inr info"
  shows "\<exists>new. availabilityLoop st f t d s e vs acc q = (Inr (acc @ new), q @ map v_id vs)
     \<and> map av_vehicle new
         = filter (\<lambda>v. findOverlappingBookings st (v_id v) s e None = []) vs
     \<and> (\<forall>a \<in> set new.
           getRouteInfo f t (capacityKg (av_vehicle a)) = Inr (av_routeInfo a)
           \<and> av_estimatedRideDurationHours a = d
           \<and> av_searchCriteria a
               = \<lparr> sc_fromPincode = f, sc_toPincode = t,
                   requestedStartTime = s, requestedEndTime = e \<rparr>
           \<and> av_type a = vehicleType (av_vehicle a))"
proof (induction vs arbitrary: acc q)
  case Nil
  show ?case by simp
next
  case (Cons v vs)
  show ?case
  proof (cases "findOverlappingBookings st (v_id v) s e None = []")
    case False
    from Cons.IH [of acc "q @ [v_id v]"] False show ?thesis by (simp add: Let_def)
  next
    case True
    from route obtain info where info: "getRouteInfo f t (capacityKg v) = Inr info" by blast
    let ?a = "enrich f t d s e v info"
    from Cons.IH [of "acc @ [?a]" "q @ [v_id v]"] obtain new where
      n: "availabilityLoop st f t d s e vs (acc @ [?a]) (q @ [v_id v])
            = (Inr ((acc @ [?a]) @ new), (q @ [v_id v]) @ map v_id vs)"
         "map av_vehicle new
            = filter (\<lambda>v. findOverlappingBookings st (v_id v) s e None = []) vs"
         "\<forall>a \<in> set new.
           getRouteInfo f t (capacityKg (av_vehicle a)) = Inr (av_routeInfo a)
           \<and> av_estimatedRideDurationHours a = d
           \<and> av_searchCriteria a
               = \<lparr> sc_fromPincode = f, sc_toPincode = t,
                   requestedStartTime = s, requestedEndTime = e \<rparr>
           \<and> av_type a = vehicleType (av_vehicle a)"
      by blast
    have "availabilityLoop st f t d s e (v # vs) acc q
        = (Inr (acc @ (?a # new)), q @ map v_id (v # vs))"
      using True info n(1) by (simp add: Let_def)
    moreover have "map av_vehicle (?a # new)
        = filter (\<lambda>v. findOverlappingBookings st (v_id v) s e None = []) (v # vs)"
      using True n(2) by (simp add: enrich_def)
    moreover have "\<forall>a \<in> set (?a # new).
           getRouteInfo f t (capacityKg (av_vehicle a)) = Inr (av_routeInfo a)
           \<and> av_estimatedRideDurationHours a = d
           \<and> av_searchCriteria a
               = \<lparr> sc_fromPincode = f, sc_toPincode = t,
                   requestedStartTime = s, requestedEndTime = e \<rparr>
           \<and> av_type a = vehicleType (av_vehicle a)"
      using info n(3) by (simp add: enrich_def)
    ultimately show ?thesis by blast
  qed
qed

text \<open>The costs of two sample routes. For 1001 kg over 150 km the exact value of the
  formula is 2001.5; the doubles give 2001.4999999999998, which rounds down.\<close>

lemma cost_2000_1h:
  "Math_round (toDouble (500 + toDouble (1 * 500 * max 1 (toDouble (2000 / 1000))))) = 1500"
proof -
  have "(2000 / 1000 :: rat) = of_int 2" by simp
  then have 1: "toDouble (2000 / 1000) = 2"
    using toDouble_of_int [of 2] by simp
  have "(1 * 500 * max 1 2 :: rat) = of_int 1000" by simp
  then have 2: "toDouble (1 * 500 * max 1 2) = 1000"
    using toDouble_of_int [of 1000] by simp
  have "(500 + 1000 :: rat) = of_int 1500" by simp
  then have 3: "toDouble (500 + 1000) = 1500"
    using toDouble_of_int [of 1500] by simp
  have 4: "Math_round 1500 = 1500"
    unfolding Math_round_def by (rule floor_unique) simp_all
  show ?thesis unfolding 1 2 3 by (rule 4)
qed

lemma cost_1001_3h:
  "Math_round (toDouble (500 + toDouble (3 * 500 * max 1 (toDouble (1001 / 1000))))) = 2001"
proof -
  have 1: "(3 * 500 * max 1 (toDouble (1001 / 1000)) :: rat)
      = 1500 * (2254051613498933 / 2251799813685248)"
    unfolding toDouble_1001 by simp
  show ?thesis
    unfolding 1 toDouble_1500_1001 toDouble_2001 by (rule Math_round_2001)
qed

text \<open>
  Claim C4. For valid search criteria (the four fields present, valid pincodes, a start time
  that parses and lies strictly in the future) \<open>findAvailableVehicles\<close> returns exactly the
  active vehicles of sufficient capacity for which the overlap query over
  \<open>[startTime, startTime + durationHours)\<close> returns nothing, in the order of the candidate
  set. Each carries the estimated duration, the search window and the route information for
  its capacity: the two pincodes, the duration, the distance of 50 km for every hour, the
  cost \<open>round (500 + distance * 10 * max 1 (capacityKg / 1000))\<close> as the doubles compute it,
  and the route label. One overlap query is issued per candidate, so none when there is no
  candidate, and then the empty list is returned.
\<close>

theorem findAvailableVehicles_exact:
  "capacityRequired crit = Some cap \<and> cap \<noteq> 0
   \<and> truthy (c_fromPincode crit) \<and> truthy (c_toPincode crit)
   \<and> isValidPincode (c_fromPincode crit) \<and> isValidPincode (c_toPincode crit)
   \<and> c_startTime crit = TimeAt t \<and> now < t \<longrightarrow>
   (\<exists>d avs.
       calculateEstimatedDuration (c_fromPincode crit) (c_toPincode crit) = Inr d
     \<and> fst (findAvailableVehicles st now crit) = Inr avs
     \<and> map av_vehicle avs
         = filter (\<lambda>v. findOverlappingBookings st (v_id v) t (t + hoursToMs d) None = [])
             (filter (\<lambda>v. capacityKg v \<ge> cap \<and> v_status v = Active) (vehicles st))
     \<and> (\<forall>a \<in> set avs.
           getRouteInfo (c_fromPincode crit) (c_toPincode crit) (capacityKg (av_vehicle a))
             = Inr (av_routeInfo a)
           \<and> av_routeInfo a
               = \<lparr> ri_fromPincode = c_fromPincode crit, ri_toPincode = c_toPincode crit,
                   estimatedDurationHours = d,
                   estimatedDistanceKm = Math_round (d * 50),
                   estimatedCost =
                     Math_round (toDouble (500 + toDouble (d * 500
                       * max 1 (toDouble (capacityKg (av_vehicle a) / 1000))))),
                   route = ToString (c_fromPincode crit)
                             @ [CHR '' '', CHR 0xE2, CHR 0x86, CHR 0x92, CHR '' '']
                             @ ToString (c_toPincode crit) \<rparr>
           \<and> (of_int (estimatedDistanceKm (av_routeInfo a)) :: rat) = d * 50
           \<and> av_estimatedRideDurationHours a = d
           \<and> av_searchCriteria a
               = \<lparr> sc_fromPincode = c_fromPincode crit, sc_toPincode = c_toPincode crit,
                   requestedStartTime = t, requestedEndTime = t + hoursToMs d \<rparr>
           \<and> av_type a = vehicleType (av_vehicle a)))
   \<and> snd (findAvailableVehicles st now crit)
       = map v_id (filter (\<lambda>v. capacityKg v \<ge> cap \<and> v_status v = Active) (vehicles st))
   \<and> (filter (\<lambda>v. capacityKg v \<ge> cap \<and> v_status v = Active) (vehicles st) = []
        \<longrightarrow> findAvailableVehicles st now crit = (Inr [], []))"
proof (intro impI, elim conjE)
  let ?f = "c_fromPincode crit" and ?t = "c_toPincode crit"
  let ?cands = "filter (\<lambda>v. capacityKg v \<ge> cap \<and> v_status v = Active) (vehicles st)"
  assume a: "capacityRequired crit = Some cap" "cap \<noteq> 0" "truthy ?f" "truthy ?t"
    "isValidPincode ?f" "isValidPincode ?t" "c_startTime crit = TimeAt t" "now < t"
  from calculateEstimatedDuration_valid [OF a(5,6)] obtain d where
    d: "calculateEstimatedDuration ?f ?t = Inr d" by blast
  note e = calculateEndTime_hoursToMs [OF d, of t]
  have r: "findAvailableVehicles st now crit
      = (if length ?cands = 0 then (Inr [], [])
         else availabilityLoop st ?f ?t d t (t + hoursToMs d) ?cands [] [])"
    using a d e by (simp add: findAvailableVehicles_def Let_def)
  from availabilityLoop_spec [of ?f ?t st d t "t + hoursToMs d" ?cands "[]" "[]"]
    getRouteInfo_valid [OF a(5,6)]
  obtain new where
    n: "availabilityLoop st ?f ?t d t (t + hoursToMs d) ?cands [] []
          = (Inr new, map v_id ?cands)"
       "map av_vehicle new
          = filter (\<lambda>v. findOverlappingBookings st (v_id v) t (t + hoursToMs d) None = []) ?cands"
       "\<forall>a \<in> set new.
           getRouteInfo ?f ?t (capacityKg (av_vehicle a)) = Inr (av_routeInfo a)
           \<and> av_estimatedRideDurationHours a = d
           \<and> av_searchCriteria a
               = \<lparr> sc_fromPincode = ?f, sc_toPincode = ?t,
                   requestedStartTime = t, requestedEndTime = t + hoursToMs d \<rparr>
           \<and> av_type a = vehicleType (av_vehicle a)"
    by auto
  have r': "findAvailableVehicles st now crit = (Inr new, map v_id ?cands)"
  proof (cases "?cands = []")
    case True
    with n(2) have "new = []" by simp
    with True r show ?thesis by simp
  next
    case False
    with r n(1) show ?thesis by simp
  qed
  have empty: "?cands = [] \<longrightarrow> findAvailableVehicles st now crit = (Inr [], [])"
    using r by simp
  have info: "av_routeInfo a
               = \<lparr> ri_fromPincode = ?f, ri_toPincode = ?t,
                   estimatedDurationHours = d,
                   estimatedDistanceKm = Math_round (d * 50),
                   estimatedCost =
                     Math_round (toDouble (500 + toDouble (d * 500
                       * max 1 (toDouble (capacityKg (av_vehicle a) / 1000))))),
                   route = ToString ?f @ [CHR '' '', CHR 0xE2, CHR 0x86, CHR 0x92, CHR '' '']
                             @ ToString ?t \<rparr>
           \<and> (of_int (estimatedDistanceKm (av_routeInfo a)) :: rat) = d * 50"
    if "a \<in> set new" for a
  proof -
    from n(3) that
    have "getRouteInfo ?f ?t (capacityKg (av_vehicle a)) = Inr (av_routeInfo a)" by blast
    with getRouteInfo_explicit [OF d, of "capacityKg (av_vehicle a)"]
    have e: "av_routeInfo a
               = \<lparr> ri_fromPincode = ?f, ri_toPincode = ?t,
                   estimatedDurationHours = d,
                   estimatedDistanceKm = Math_round (d * 50),
                   estimatedCost =
                     Math_round (toDouble (500 + toDouble (d * 500
                       * max 1 (toDouble (capacityKg (av_vehicle a) / 1000))))),
                   route = ToString ?f @ [CHR '' '', CHR 0xE2, CHR 0x86, CHR 0x92, CHR '' '']
                             @ ToString ?t \<rparr>"
      by simp
    from arg_cong [OF e, of estimatedDistanceKm]
    have "estimatedDistanceKm (av_routeInfo a) = Math_round (d * 50)" by simp
    with Math_round_duration [OF d] e show ?thesis by simp
  qed
  have elem: "(\<forall>a \<in> set new.
           getRouteInfo ?f ?t (capacityKg (av_vehicle a)) = Inr (av_routeInfo a)
           \<and> av_routeInfo a
               = \<lparr> ri_fromPincode = ?f, ri_toPincode = ?t,
                   estimatedDurationHours = d,
                   estimatedDistanceKm = Math_round (d * 50),
                   estimatedCost =
                     Math_round (toDouble (500 + toDouble (d * 500
                       * max 1 (toDouble (capacityKg (av_vehicle a) / 1000))))),
                   route = ToString ?f @ [CHR '' '', CHR 0xE2, CHR 0x86, CHR 0x92, CHR '' '']
                             @ ToString ?t \<rparr>
           \<and> (of_int (estimatedDistanceKm (av_routeInfo a)) :: rat) = d * 50
           \<and> av_estimatedRideDurationHours a = d
           \<and> av_searchCriteria a
               = \<lparr> sc_fromPincode = ?f, sc_toPincode = ?t,
                   requestedStartTime = t, requestedEndTime = t + hoursToMs d \<rparr>
           \<and> av_type a = vehicleType (av_vehicle a))"
    using n(3) info by blast
  have a1: "fst (findAvailableVehicles st now crit) = Inr new" using r' by simp
  have a2: "snd (findAvailableVehicles st now crit) = map v_id ?cands" using r' by simp
  show "(\<exists>d avs.
       calculateEstimatedDuration ?f ?t = Inr d
     \<and> fst (findAvailableVehicles st now crit) = Inr avs
     \<and> map av_vehicle avs
         = filter (\<lambda>v. findOverlappingBookings st (v_id v) t (t + hoursToMs d) None = []) ?cands
     \<and> (\<forall>a \<in> set avs.
           getRouteInfo ?f ?t (capacityKg (av_vehicle a)) = Inr (av_routeInfo a)
           \<and> av_routeInfo a
               = \<lparr> ri_fromPincode = ?f, ri_toPincode = ?t,
                   estimatedDurationHours = d,
                   estimatedDistanceKm = Math_round (d * 50),
                   estimatedCost =
                     Math_round (toDouble (500 + toDouble (d * 500
                       * max 1 (toDouble (capacityKg (av_vehicle a) / 1000))))),
                   route = ToString ?f @ [CHR '' '', CHR 0xE2, CHR 0x86, CHR 0x92, CHR '' '']
                             @ ToString ?t \<rparr>
           \<and> (of_int (estimatedDistanceKm (av_routeInfo a)) :: rat) = d * 50
           \<and> av_estimatedRideDurationHours a = d
           \<and> av_searchCriteria a
               = \<lparr> sc_fromPincode = ?f, sc_toPincode = ?t,
                   requestedStartTime = t, requestedEndTime = t + hoursToMs d \<rparr>
           \<and> av_type a = vehicleType (av_vehicle a)))
   \<and> snd (findAvailableVehicles st now crit) = map v_id ?cands
   \<and> (?cands = [] \<longrightarrow> findAvailableVehicles st now crit = (Inr [], []))"
    by (intro conjI exI [of _ d] exI [of _ new]) (rule d a1 n(2) elem a2 empty)+
qed

theorem findAvailableVehicles_exact_witness:
  "(\<exists>avs. fst (findAvailableVehicles searchStore 0 searchCriteria0) = Inr avs
        \<and> map av_vehicle avs = [sampleVehicle 8 2000 Active]
        \<and> map av_estimatedRideDurationHours avs = [1]
        \<and> map (\<lambda>a. estimatedDistanceKm (av_routeInfo a)) avs = [50]
        \<and> map (\<lambda>a. estimatedCost (av_routeInfo a)) avs = [1500])
   \<and> snd (findAvailableVehicles searchStore 0 searchCriteria0) = [7, 8]
   \<and> (\<exists>avs. fst (findAvailableVehicles costStore 0 costCriteria) = Inr avs
        \<and> map av_vehicle avs = [sampleVehicle 13 1001 Active]
        \<and> map (\<lambda>a. estimatedDistanceKm (av_routeInfo a)) avs = [150]
        \<and> map (\<lambda>a. estimatedCost (av_routeInfo a)) avs = [2001])"
proof -
  have pre: "capacityRequired searchCriteria0 = Some 500 \<and> (500 :: rat) \<noteq> 0
   \<and> truthy (c_fromPincode searchCriteria0) \<and> truthy (c_toPincode searchCriteria0)
   \<and> isValidPincode (c_fromPincode searchCriteria0)
   \<and> isValidPincode (c_toPincode searchCriteria0)
   \<and> c_startTime searchCriteria0 = TimeAt 10000000 \<and> (0 :: int) < 10000000"
    by (simp add: searchCriteria0_def isValidPincode_def isDigit_def)
  have dur: "calculateEstimatedDuration (c_fromPincode searchCriteria0)
               (c_toPincode searchCriteria0) = Inr 1"
    by (simp add: searchCriteria0_def calculateEstimatedDuration_def isValidPincode_def
        isDigit_def parseInt_def decimal_def digitVal_def)
  have ms: "hoursToMs 1 = 3600000" by (simp add: hoursToMs_def)
  have cands: "filter (\<lambda>v. capacityKg v \<ge> 500 \<and> v_status v = Active) (vehicles searchStore)
      = [sampleVehicle 7 1000 Active, sampleVehicle 8 2000 Active]"
    by (simp add: searchStore_def sampleVehicle_def)
  have free: "filter (\<lambda>v. findOverlappingBookings searchStore (v_id v) 10000000
                            (10000000 + 3600000) None = [])
                [sampleVehicle 7 1000 Active, sampleVehicle 8 2000 Active]
      = [sampleVehicle 8 2000 Active]"
    by (simp add: searchStore_def sampleVehicle_def sampleBooking_def
        findOverlappingBookings_def isActiveStatus_def)
  from findAvailableVehicles_exact [of searchCriteria0 500 10000000 0 searchStore,
      THEN mp, OF pre]
  obtain d avs where
    r: "calculateEstimatedDuration (c_fromPincode searchCriteria0)
          (c_toPincode searchCriteria0) = Inr d"
       "fst (findAvailableVehicles searchStore 0 searchCriteria0) = Inr avs"
       "map av_vehicle avs
         = filter (\<lambda>v. findOverlappingBookings searchStore (v_id v) 10000000
                          (10000000 + hoursToMs d) None = [])
             (filter (\<lambda>v. capacityKg v \<ge> 500 \<and> v_status v = Active) (vehicles searchStore))"
       "\<forall>a \<in> set avs. av_estimatedRideDurationHours a = d
          \<and> (of_int (estimatedDistanceKm (av_routeInfo a)) :: rat) = d * 50
          \<and> estimatedCost (av_routeInfo a)
              = Math_round (toDouble (500 + toDouble (d * 500
                       * max 1 (toDouble (capacityKg (av_vehicle a) / 1000)))))"
    and q: "snd (findAvailableVehicles searchStore 0 searchCriteria0)
       = map v_id (filter (\<lambda>v. capacityKg v \<ge> 500 \<and> v_status v = Active)
                     (vehicles searchStore))"
    by (elim conjE exE) (rule that, auto)
  from r(1) dur have d: "d = 1" by simp
  from r(3) have vs: "map av_vehicle avs = [sampleVehicle 8 2000 Active]"
    unfolding d ms cands free .
  then obtain a where avs: "avs = [a]" and a: "av_vehicle a = sampleVehicle 8 2000 Active"
    by (cases avs) auto
  have cap: "capacityKg (av_vehicle a) = 2000" by (simp add: a sampleVehicle_def)
  from r(4) avs have fa: "av_estimatedRideDurationHours a = d"
      "(of_int (estimatedDistanceKm (av_routeInfo a)) :: rat) = d * 50"
      "estimatedCost (av_routeInfo a)
              = Math_round (toDouble (500 + toDouble (d * 500
                       * max 1 (toDouble (capacityKg (av_vehicle a) / 1000)))))"
    by simp_all
  from fa(1) have est: "map av_estimatedRideDurationHours avs = [1]" by (simp add: avs d)
  from fa(2) have "(of_int (estimatedDistanceKm (av_routeInfo a)) :: rat) = of_int 50"
    by (simp add: d)
  then have "estimatedDistanceKm (av_routeInfo a) = 50" by (simp only: of_int_eq_iff)
  then have dist: "map (\<lambda>a. estimatedDistanceKm (av_routeInfo a)) avs = [50]"
    by (simp add: avs)
  from fa(3) have "estimatedCost (av_routeInfo a) = 1500"
    unfolding d cap by (simp only: cost_2000_1h)
  then have cost: "map (\<lambda>a. estimatedCost (av_routeInfo a)) avs = [1500]" by (simp add: avs)
  from q have log: "snd (findAvailableVehicles searchStore 0 searchCriteria0) = [7, 8]"
    unfolding cands by (simp add: sampleVehicle_def)
  have first: "\<exists>avs. fst (findAvailableVehicles searchStore 0 searchCriteria0) = Inr avs
        \<and> map av_vehicle avs = [sampleVehicle 8 2000 Active]
        \<and> map av_estimatedRideDurationHours avs = [1]
        \<and> map (\<lambda>a. estimatedDistanceKm (av_routeInfo a)) avs = [50]
        \<and> map (\<lambda>a. estimatedCost (av_routeInfo a)) avs = [1500]"
    by (intro exI [of _ avs] conjI) (rule r(2) vs est dist cost)+
  have pre2: "capacityRequired costCriteria = Some 1001 \<and> (1001 :: rat) \<noteq> 0
   \<and> truthy (c_fromPincode costCriteria) \<and> truthy (c_toPincode costCriteria)
   \<and> isValidPincode (c_fromPincode costCriteria)
   \<and> isValidPincode (c_toPincode costCriteria)
   \<and> c_startTime costCriteria = TimeAt 10000000 \<and> (0 :: int) < 10000000"
    by (simp add: costCriteria_def isValidPincode_def isDigit_def)
  have dur2: "calculateEstimatedDuration (c_fromPincode costCriteria)
               (c_toPincode costCriteria) = Inr 3"
    by (simp add: costCriteria_def calculateEstimatedDuration_def isValidPincode_def
        isDigit_def parseInt_def decimal_def digitVal_def)
  have sel2: "filter (\<lambda>v. findOverlappingBookings costStore (v_id v) 10000000
                          (10000000 + hoursToMs e) None = [])
             (filter (\<lambda>v. capacityKg v \<ge> 1001 \<and> v_status v = Active) (vehicles costStore))
      = [sampleVehicle 13 1001 Active]" for e
    by (simp add: costStore_def sampleVehicle_def findOverlappingBookings_def)
  from findAvailableVehicles_exact [of costCriteria 1001 10000000 0 costStore,
      THEN mp, OF pre2]
  obtain d2 avs2 where
    r2: "calculateEstimatedDuration (c_fromPincode costCriteria)
          (c_toPincode costCriteria) = Inr d2"
       "fst (findAvailableVehicles costStore 0 costCriteria) = Inr avs2"
       "map av_vehicle avs2
         = filter (\<lambda>v. findOverlappingBookings costStore (v_id v) 10000000
                          (10000000 + hoursToMs d2) None = [])
             (filter (\<lambda>v. capacityKg v \<ge> 1001 \<and> v_status v = Active) (vehicles costStore))"
       "\<forall>a \<in> set avs2.
          (of_int (estimatedDistanceKm (av_routeInfo a)) :: rat) = d2 * 50
          \<and> estimatedCost (av_routeInfo a)
              = Math_round (toDouble (500 + toDouble (d2 * 500
                       * max 1 (toDouble (capacityKg (av_vehicle a) / 1000)))))"
    by (elim conjE exE) (rule that, auto)
  from r2(1) dur2 have d2: "d2 = 3" by simp
  from r2(3) have vs2: "map av_vehicle avs2 = [sampleVehicle 13 1001 Active]"
    unfolding sel2 .
  then obtain b where avs2: "avs2 = [b]" and b: "av_vehicle b = sampleVehicle 13 1001 Active"
    by (cases avs2) auto
  have cap2: "capacityKg (av_vehicle b) = 1001" by (simp add: b sampleVehicle_def)
  from r2(4) avs2 have fb:
      "(of_int (estimatedDistanceKm (av_routeInfo b)) :: rat) = d2 * 50"
      "estimatedCost (av_routeInfo b)
              = Math_round (toDouble (500 + toDouble (d2 * 500
                       * max 1 (toDouble (capacityKg (av_vehicle b) / 1000)))))"
    by simp_all
  from fb(1) have "(of_int (estimatedDistanceKm (av_routeInfo b)) :: rat) = of_int 150"
    by (simp add: d2)
  then have "estimatedDistanceKm (av_routeInfo b) = 150" by (simp only: of_int_eq_iff)
  then have dist2: "map (\<lambda>a. estimatedDistanceKm (av_routeInfo a)) avs2 = [150]"
    by (simp add: avs2)
  from fb(2) have "estimatedCost (av_routeInfo b) = 2001"
    unfolding d2 cap2 by (simp only: cost_1001_3h)
  then have cost2: "map (\<lambda>a. estimatedCost (av_routeInfo a)) avs2 = [2001]"
    by (simp add: avs2)
  have second: "\<exists>avs. fst (findAvailableVehicles costStore 0 costCriteria) = Inr avs
        \<and> map av_vehicle avs = [sampleVehicle 13 1001 Active]
        \<and> map (\<lambda>a. estimatedDistanceKm (av_routeInfo a)) avs = [150]
        \<and> map (\<lambda>a. estimatedCost (av_routeInfo a)) avs = [2001]"
    by (intro exI [of _ avs2] conjI) (rule r2(2) vs2 dist2 cost2)+
  from first log second show ?thesis by (intro conjI)
qed

end
